theory Spec2Isabelle
  imports Complex_Main
begin

section \<open>Errors and dense tensors\<close>

text \<open>
  The exceptions that the code of \<^verbatim>\<open>networks/unet_ae.py\<close> can raise by itself are
  Python's: an index out of range, a division or remainder by zero, an attribute or an
  argument of \<^verbatim>\<open>None\<close>, a local variable read before its assignment.
  \<open>RuntimeError\<close> is what the tensor library raises on a shape that does not fit.
\<close>

datatype error =
  IndexError | ZeroDivisionError | AttributeError | TypeError | NameError | RuntimeError

text \<open>
  A dense tensor is its size (one extent per dimension) and its elements in row-major
  order. Dimension 0 is the batch dimension of every tensor the loaders yield.
\<close>

datatype 'a tensor = Tensor (shape: "nat list") (data: "'a list")

definition numel :: "'a tensor \<Rightarrow> nat" where
  "numel t = prod_list (shape t)"

text \<open>\<^verbatim>\<open>t.view(s)\<close>: the same elements under another size with as many elements.\<close>

definition view :: "'a tensor \<Rightarrow> nat list \<Rightarrow> error + 'a tensor" where
  "view t s = (if prod_list s = numel t then Inr (Tensor s (data t)) else Inl RuntimeError)"

definition view_as :: "'a tensor \<Rightarrow> 'b tensor \<Rightarrow> error + 'a tensor" where
  "view_as t other = view t (shape other)"

text \<open>\<^verbatim>\<open>t.neg()\<close>: a new tensor of the same size, every element negated.\<close>

definition neg :: "'a::uminus tensor \<Rightarrow> 'a tensor" where
  "neg t = Tensor (shape t) (map uminus (data t))"

section \<open>Gradient reversal\<close>

text \<open>
  \<^verbatim>\<open>
  class ReverseLayerF(Function):
      @staticmethod
      def forward(ctx, x):
          return x.view_as(x)
      @staticmethod
      def backward(ctx, grad_output):
          output = grad_output.neg()
          return output, None
  \<close>
\<close>

definition ReverseLayerF_forward :: "'c \<Rightarrow> 'a tensor \<Rightarrow> error + 'a tensor" where
  "ReverseLayerF_forward ctx x = view_as x x"

definition ReverseLayerF_backward :: "'c \<Rightarrow> 'a::uminus tensor \<Rightarrow> 'a tensor \<times> 'n option" where
  "ReverseLayerF_backward ctx grad_output = (let output = neg grad_output in (output, None))"

text \<open>\<^verbatim>\<open>ReverseLayerF.apply(x)\<close> runs \<open>forward\<close> under a fresh context.\<close>

definition ReverseLayerF_apply :: "'a tensor \<Rightarrow> error + 'a tensor" where
  "ReverseLayerF_apply x = ReverseLayerF_forward () x"

section \<open>Python operations that can raise\<close>

text \<open>\<^verbatim>\<open>xs[i]\<close> for an index \<open>i \<ge> 0\<close>: \<^verbatim>\<open>IndexError\<close> past the end.\<close>

definition py_index :: "'a list \<Rightarrow> nat \<Rightarrow> error + 'a" where
  "py_index xs i = (if i < length xs then Inr (xs ! i) else Inl IndexError)"

text \<open>\<^verbatim>\<open>a % b\<close> on integers: the remainder has the sign of \<open>b\<close>, as \<open>mod\<close> on \<open>int\<close>.\<close>

definition py_mod :: "int \<Rightarrow> int \<Rightarrow> error + int" where
  "py_mod a b = (if b = 0 then Inl ZeroDivisionError else Inr (a mod b))"

text \<open>\<^verbatim>\<open>a / b\<close>, true division.\<close>

definition py_truediv :: "real \<Rightarrow> real \<Rightarrow> error + real" where
  "py_truediv a b = (if b = 0 then Inl ZeroDivisionError else Inr (a / b))"

text \<open>\<^verbatim>\<open>2 ** k\<close>: an integer for \<open>k \<ge> 0\<close>, the float \<open>1 / 2 ** -k\<close> below.\<close>

definition py_pow2 :: "int \<Rightarrow> real" where
  "py_pow2 k = (if 0 \<le> k then 2 ^ nat k else 1 / 2 ^ nat (- k))"

section \<open>Modules\<close>

text \<open>
  The names under which modules are registered: \<^verbatim>\<open>'convblock%d'\<close>, \<^verbatim>\<open>'pool%d'\<close>,
  \<^verbatim>\<open>'upconv%d'\<close> in a \<^verbatim>\<open>features\<close> container, and the attributes of the classes.
\<close>

datatype mod_name =
    Convblock nat | Pool nat | Upconv nat
  | Center_conv | Output | Encoder | Decoder | Domain_classifier

text \<open>
  The building blocks come from \<^verbatim>\<open>networks.blocks\<close>, \<^verbatim>\<open>networks.cnn\<close> and the
  tensor library. A module is kept as the arguments it was constructed from; what it
  computes is the parameter \<open>run\<close> of the forward passes below, applied to the module, its
  weights and its arguments.
\<close>

datatype module =
    UNetConvBlock2D real real bool          \<comment> \<open>in features, out features, group norm\<close>
  | MaxPool2d nat nat                       \<comment> \<open>kernel size, stride\<close>
  | UNetUpSamplingBlock2D real real bool    \<comment> \<open>in features, out features, deconv\<close>
  | Conv2d real real nat                    \<comment> \<open>in channels, out channels, kernel size\<close>
  | CNN "real \<times> real \<times> real" "nat list" "nat list"
                                            \<comment> \<open>input size, conv channels, fc channels\<close>

type_synonym 'w layer = "module \<times> 'w"

type_synonym 'w runner = "module \<Rightarrow> 'w \<Rightarrow> real tensor list \<Rightarrow> real tensor"

definition call :: "'w runner \<Rightarrow> 'w layer \<Rightarrow> real tensor list \<Rightarrow> real tensor" where
  "call run l args = run (fst l) (snd l) args"

text \<open>\<^verbatim>\<open>features.add_module(name, m)\<close> and \<^verbatim>\<open>getattr(features, name)\<close>.\<close>

definition add_module ::
  "(mod_name \<rightharpoonup> 'w layer) \<Rightarrow> mod_name \<Rightarrow> 'w layer \<Rightarrow> (mod_name \<rightharpoonup> 'w layer)" where
  "add_module features name m = features(name \<mapsto> m)"

definition getattr :: "(mod_name \<rightharpoonup> 'w layer) \<Rightarrow> mod_name \<Rightarrow> error + 'w layer" where
  "getattr features name = (case features name of None \<Rightarrow> Inl AttributeError | Some m \<Rightarrow> Inr m)"

section \<open>The encoder\<close>

record 'w UNetEncoder =
  enc_in_channels :: int
  enc_feature_maps :: int
  enc_levels :: int
  enc_features :: "mod_name \<rightharpoonup> 'w layer"
  center_conv :: "'w layer"

text \<open>
  One round of the loop of \<^verbatim>\<open>UNetEncoder.__init__\<close>; the state is \<open>features\<close> and
  \<open>in_features\<close>. \<open>w0\<close> gives every new module its initial weights.
\<close>

definition enc_init_step ::
  "(mod_name \<Rightarrow> 'w) \<Rightarrow> int \<Rightarrow> bool \<Rightarrow> nat
   \<Rightarrow> (mod_name \<rightharpoonup> 'w layer) \<times> real \<Rightarrow> (mod_name \<rightharpoonup> 'w layer) \<times> real" where
  "enc_init_step w0 feature_maps group_norm i st =
     (let features = fst st; in_features = snd st;
          out_features = (2 ^ i) * real_of_int feature_maps;
          conv_block = (UNetConvBlock2D in_features out_features group_norm, w0 (Convblock (i + 1)));
          features = add_module features (Convblock (i + 1)) conv_block;
          pool = (MaxPool2d 2 2, w0 (Pool (i + 1)));
          features = add_module features (Pool (i + 1)) pool
      in (features, out_features))"

definition UNetEncoder_init ::
  "(mod_name \<Rightarrow> 'w) \<Rightarrow> int \<Rightarrow> int \<Rightarrow> int \<Rightarrow> bool \<Rightarrow> 'w UNetEncoder" where
  "UNetEncoder_init w0 in_channels feature_maps levels group_norm =
     \<lparr> enc_in_channels = in_channels,
       enc_feature_maps = feature_maps,
       enc_levels = levels,
       enc_features = fst (fold (enc_init_step w0 feature_maps group_norm) [0..<nat levels]
                            (Map.empty, real_of_int in_channels)),
       center_conv = (UNetConvBlock2D (py_pow2 (levels - 1) * real_of_int feature_maps)
                                      (py_pow2 levels * real_of_int feature_maps) group_norm,
                      w0 Center_conv) \<rparr>"

text \<open>
  The loop of \<^verbatim>\<open>UNetEncoder.forward\<close> over the remaining levels; the state is
  \<open>encoder_outputs\<close> and \<open>outputs\<close>.
\<close>

fun encoder_loop ::
  "'w runner \<Rightarrow> (mod_name \<rightharpoonup> 'w layer) \<Rightarrow> nat list \<Rightarrow> real tensor list \<Rightarrow> real tensor
   \<Rightarrow> error + (real tensor list \<times> real tensor)" where
  "encoder_loop run features [] encoder_outputs outputs = Inr (encoder_outputs, outputs)"
| "encoder_loop run features (i # is) encoder_outputs outputs =
     (case getattr features (Convblock (i + 1)) of
        Inl e \<Rightarrow> Inl e
      | Inr convblock \<Rightarrow>
          (let outputs = call run convblock [outputs];
               encoder_outputs = encoder_outputs @ [outputs]
           in case getattr features (Pool (i + 1)) of
                Inl e \<Rightarrow> Inl e
              | Inr pool \<Rightarrow> encoder_loop run features is encoder_outputs (call run pool [outputs])))"

definition UNetEncoder_forward ::
  "'w runner \<Rightarrow> 'w UNetEncoder \<Rightarrow> real tensor
   \<Rightarrow> error + (real tensor list \<times> real tensor \<times> real tensor)" where
  "UNetEncoder_forward run self inputs =
     (case encoder_loop run (enc_features self) [0..<nat (enc_levels self)] [] inputs of
        Inl e \<Rightarrow> Inl e
      | Inr (encoder_outputs, outputs) \<Rightarrow>
          (let outputs = call run (center_conv self) [outputs]
           in case ReverseLayerF_apply outputs of
                Inl e \<Rightarrow> Inl e
              | Inr reverse_outputs \<Rightarrow> Inr (encoder_outputs, outputs, reverse_outputs)))"

section \<open>The decoder\<close>

record 'w UNetDecoder =
  dec_in_channels :: int
  dec_out_channels :: int
  dec_feature_maps :: int
  dec_levels :: int
  skip_connections :: bool
  dec_features :: "mod_name \<rightharpoonup> 'w layer"
  output_layer :: "'w layer"

definition dec_init_step ::
  "(mod_name \<Rightarrow> 'w) \<Rightarrow> int \<Rightarrow> int \<Rightarrow> bool \<Rightarrow> bool \<Rightarrow> nat
   \<Rightarrow> (mod_name \<rightharpoonup> 'w layer) \<Rightarrow> (mod_name \<rightharpoonup> 'w layer)" where
  "dec_init_step w0 feature_maps levels skip group_norm i features =
     (let fm = real_of_int feature_maps;
          upconv = (UNetUpSamplingBlock2D (py_pow2 (levels - int i) * fm)
                                          (py_pow2 (levels - int i - 1) * fm) True,
                    w0 (Upconv (i + 1)));
          features = add_module features (Upconv (i + 1)) upconv;
          conv_block =
            (if skip
             then UNetConvBlock2D (py_pow2 (levels - int i) * fm)
                                  (py_pow2 (levels - int i - 1) * fm) group_norm
             else UNetConvBlock2D (py_pow2 (levels - int i - 1) * fm)
                                  (py_pow2 (levels - int i - 1) * fm) group_norm,
             w0 (Convblock (i + 1)))
      in add_module features (Convblock (i + 1)) conv_block)"

definition UNetDecoder_init ::
  "(mod_name \<Rightarrow> 'w) \<Rightarrow> int \<Rightarrow> int \<Rightarrow> int \<Rightarrow> int \<Rightarrow> bool \<Rightarrow> bool \<Rightarrow> 'w UNetDecoder" where
  "UNetDecoder_init w0 in_channels out_channels feature_maps levels skip group_norm =
     \<lparr> dec_in_channels = in_channels,
       dec_out_channels = out_channels,
       dec_feature_maps = feature_maps,
       dec_levels = levels,
       skip_connections = skip,
       dec_features = fold (dec_init_step w0 feature_maps levels skip group_norm)
                        [0..<nat levels] Map.empty,
       output_layer = (Conv2d (real_of_int feature_maps) (real_of_int out_channels) 1, w0 Output) \<rparr>"

text \<open>
  The loop of \<^verbatim>\<open>UNetDecoder.forward\<close>; \<open>encoder_outputs\<close> is the list after its
  reversal, the state is \<open>decoder_outputs\<close> and \<open>outputs\<close>. The callee is looked up before
  its arguments are evaluated.
\<close>

fun decoder_loop ::
  "'w runner \<Rightarrow> 'w UNetDecoder \<Rightarrow> real tensor list \<Rightarrow> nat list \<Rightarrow> real tensor list
   \<Rightarrow> real tensor \<Rightarrow> error + (real tensor list \<times> real tensor)" where
  "decoder_loop run self encoder_outputs [] decoder_outputs outputs =
     Inr (decoder_outputs, outputs)"
| "decoder_loop run self encoder_outputs (i # is) decoder_outputs outputs =
     (case getattr (dec_features self) (Upconv (i + 1)) of
        Inl e \<Rightarrow> Inl e
      | Inr upconv \<Rightarrow>
          (case (if skip_connections self
                 then (case py_index encoder_outputs i of
                         Inl e \<Rightarrow> Inl e
                       | Inr enc \<Rightarrow> Inr (call run upconv [enc, outputs]))
                 else Inr (call run upconv [outputs])) of
             Inl e \<Rightarrow> Inl e
           | Inr outputs \<Rightarrow>
               (case getattr (dec_features self) (Convblock (i + 1)) of
                  Inl e \<Rightarrow> Inl e
                | Inr convblock \<Rightarrow>
                    (let outputs = call run convblock [outputs]
                     in decoder_loop run self encoder_outputs is
                          (decoder_outputs @ [outputs]) outputs))))"

text \<open>
  \<^verbatim>\<open>UNetDecoder.forward(inputs, encoder_outputs)\<close>. The list \<open>encoder_outputs\<close> is the
  caller's object and \<^verbatim>\<open>encoder_outputs.reverse()\<close> changes it in place: the first
  component of the result is the caller's list after the call, whether the call returns
  or raises; the second is what the call returns or raises.
\<close>

definition UNetDecoder_forward ::
  "'w runner \<Rightarrow> 'w UNetDecoder \<Rightarrow> real tensor \<Rightarrow> real tensor list
   \<Rightarrow> real tensor list \<times> (error + (real tensor list \<times> real tensor))" where
  "UNetDecoder_forward run self inputs encoder_outputs =
     (let encoder_outputs = rev encoder_outputs
      in (encoder_outputs,
          case decoder_loop run self encoder_outputs [0..<nat (dec_levels self)] [] inputs of
            Inl e \<Rightarrow> Inl e
          | Inr (decoder_outputs, outputs) \<Rightarrow>
              Inr (decoder_outputs, call run (output_layer self) [outputs])))"

section \<open>The autoencoder with its domain classifier\<close>

record 'w UNetAE =
  ae_in_channels :: int
  ae_out_channels :: int
  ae_feature_maps :: int
  ae_levels :: int
  ae_group_norm :: bool
  lambda_rec :: real
  encoder :: "'w UNetEncoder"
  decoder :: "'w UNetDecoder"
  domain_classifier :: "'w layer"

text \<open>\<^verbatim>\<open>a // b\<close> of an integer by a power of two (a float for a negative exponent).\<close>

definition py_floordiv :: "int \<Rightarrow> real \<Rightarrow> error + real" where
  "py_floordiv a b = (if b = 0 then Inl ZeroDivisionError else Inr (of_int \<lfloor>of_int a / b\<rfloor>))"

definition UNetAE_init ::
  "(mod_name list \<Rightarrow> 'w) \<Rightarrow> int \<Rightarrow> int \<Rightarrow> int \<Rightarrow> int \<Rightarrow> bool \<Rightarrow> real \<Rightarrow> int
   \<Rightarrow> error + 'w UNetAE" where
  "UNetAE_init w0 in_channels out_channels feature_maps levels group_norm lam s =
     (let enc = UNetEncoder_init (\<lambda>k. w0 [Encoder, k]) in_channels feature_maps levels
                  group_norm;
          dec = UNetDecoder_init (\<lambda>k. w0 [Decoder, k]) in_channels out_channels
                  feature_maps levels False group_norm
      in case py_floordiv s (py_pow2 levels) of
           Inl e \<Rightarrow> Inl e
         | Inr n \<Rightarrow>
             (let fm = real_of_int feature_maps * py_pow2 levels;
                  conv_channels = [48, 48, 48];
                  fc_channels = [48, 24, 2]
              in Inr \<lparr> ae_in_channels = in_channels,
                       ae_out_channels = out_channels,
                       ae_feature_maps = feature_maps,
                       ae_levels = levels,
                       ae_group_norm = group_norm,
                       lambda_rec = lam,
                       encoder = enc,
                       decoder = dec,
                       domain_classifier =
                         (CNN (fm, n, n) conv_channels fc_channels, w0 [Domain_classifier]) \<rparr>))"

text \<open>
  \<^verbatim>\<open>UNetAE.forward\<close>. The list of encoder outputs is local to the call, so its reversal
  by the decoder is not visible outside.
\<close>

definition UNetAE_forward ::
  "'w runner \<Rightarrow> 'w UNetAE \<Rightarrow> real tensor \<Rightarrow> error + (real tensor \<times> real tensor)" where
  "UNetAE_forward run self inputs =
     (case UNetEncoder_forward run (encoder self) inputs of
        Inl e \<Rightarrow> Inl e
      | Inr (encoder_outputs, final_output, reverse_outputs) \<Rightarrow>
          (let domain = call run (domain_classifier self) [reverse_outputs]
           in case snd (UNetDecoder_forward run (decoder self) final_output encoder_outputs) of
                Inl e \<Rightarrow> Inl e
              | Inr (decoder_outputs, outputs) \<Rightarrow> Inr (outputs, domain)))"

section \<open>Tensor operations of the training loops\<close>

text \<open>\<^verbatim>\<open>t.size(0)\<close>: the extent of the batch dimension; a tensor of no dimension has none.\<close>

definition size0 :: "'a tensor \<Rightarrow> error + nat" where
  "size0 t = (case shape t of [] \<Rightarrow> Inl IndexError | n # _ \<Rightarrow> Inr n)"

text \<open>
  \<^verbatim>\<open>torch.cat((a, b), dim=0)\<close>: both tensors have a batch dimension and the same size
  behind it; the rows of \<open>a\<close> come first, then those of \<open>b\<close>.
\<close>

definition cat0 :: "'a tensor \<Rightarrow> 'a tensor \<Rightarrow> error + 'a tensor" where
  "cat0 a b =
     (case shape a of
        [] \<Rightarrow> Inl RuntimeError
      | na # ra \<Rightarrow>
          (case shape b of
             [] \<Rightarrow> Inl RuntimeError
           | nb # rb \<Rightarrow>
               if ra = rb then Inr (Tensor ((na + nb) # ra) (data a @ data b))
               else Inl RuntimeError))"

text \<open>\<^verbatim>\<open>torch.zeros((n)).long()\<close> and \<^verbatim>\<open>torch.ones((n)).long()\<close>.\<close>

definition zeros :: "nat \<Rightarrow> int tensor" where
  "zeros n = Tensor [n] (replicate n 0)"

definition ones :: "nat \<Rightarrow> int tensor" where
  "ones n = Tensor [n] (replicate n 1)"

text \<open>
  A scalar loss under automatic differentiation: its value and its gradient with respect
  to the weights of the model. Sum and product by a number act on both.
\<close>

datatype 'g scalar = Scalar (val: real) (grad: 'g)

definition s_add :: "'g::real_vector scalar \<Rightarrow> 'g scalar \<Rightarrow> 'g scalar" where
  "s_add a b = Scalar (val a + val b) (grad a + grad b)"

definition s_mul :: "real \<Rightarrow> 'g::real_vector scalar \<Rightarrow> 'g scalar" where
  "s_mul c a = Scalar (c * val a) (scaleR c (grad a))"

section \<open>Weights of a model\<close>

text \<open>
  The optimizer and the switch between training and evaluation mode change the weights
  (and buffers) of the modules and nothing else of a model: an update is a function of a
  module's path and its weights.
\<close>

definition update_layer :: "('w \<Rightarrow> 'w) \<Rightarrow> 'w layer \<Rightarrow> 'w layer" where
  "update_layer f l = (fst l, f (snd l))"

definition update_features ::
  "(mod_name \<Rightarrow> 'w \<Rightarrow> 'w) \<Rightarrow> (mod_name \<rightharpoonup> 'w layer) \<Rightarrow> (mod_name \<rightharpoonup> 'w layer)" where
  "update_features f features = (\<lambda>name. map_option (update_layer (f name)) (features name))"

definition update_encoder :: "(mod_name \<Rightarrow> 'w \<Rightarrow> 'w) \<Rightarrow> 'w UNetEncoder \<Rightarrow> 'w UNetEncoder" where
  "update_encoder f e =
     e\<lparr> enc_features := update_features f (enc_features e),
        center_conv := update_layer (f Center_conv) (center_conv e) \<rparr>"

definition update_decoder :: "(mod_name \<Rightarrow> 'w \<Rightarrow> 'w) \<Rightarrow> 'w UNetDecoder \<Rightarrow> 'w UNetDecoder" where
  "update_decoder f d =
     d\<lparr> dec_features := update_features f (dec_features d),
        output_layer := update_layer (f Output) (output_layer d) \<rparr>"

definition update_weights :: "(mod_name list \<Rightarrow> 'w \<Rightarrow> 'w) \<Rightarrow> 'w UNetAE \<Rightarrow> 'w UNetAE" where
  "update_weights f m =
     m\<lparr> encoder := update_encoder (\<lambda>k. f [Encoder, k]) (encoder m),
        decoder := update_decoder (\<lambda>k. f [Decoder, k]) (decoder m),
        domain_classifier := update_layer (f [Domain_classifier]) (domain_classifier m) \<rparr>"

section \<open>What the training code is given\<close>

text \<open>
  A data loader: the length of its data set, its batch size (\<^verbatim>\<open>None\<close> when batching is
  off) and the batches one pass over it yields.
\<close>

record loader =
  dataset_len :: nat
  batch_size :: "nat option"
  batches :: "real tensor list"

text \<open>
  A loss function takes the prediction and the target. The prediction carries the graph
  it was computed by; here the model that computed it is the first argument.
\<close>

type_synonym ('w, 'g) loss_fn = "'w UNetAE \<Rightarrow> real tensor \<Rightarrow> real tensor \<Rightarrow> 'g scalar"

text \<open>
  The library the code runs on: the forward pass of every building block, the switch of
  mode, the cross-entropy loss, Adam with its step-size scheduler (one state \<open>'o\<close>), and
  the image helpers of the summary writer.
\<close>

record ('w, 'g, 'o) torch =
  run :: "'w runner"
  set_training :: "bool \<Rightarrow> mod_name list \<Rightarrow> 'w \<Rightarrow> 'w"
  CrossEntropyLoss :: "'w UNetAE \<Rightarrow> real tensor \<Rightarrow> int tensor \<Rightarrow> 'g scalar"
  Adam :: "'w UNetAE \<Rightarrow> real \<Rightarrow> 'o"
  StepLR :: "'o \<Rightarrow> int \<Rightarrow> real \<Rightarrow> 'o"
  optimizer_step :: "'g \<Rightarrow> 'o \<Rightarrow> 'o \<times> (mod_name list \<Rightarrow> 'w \<Rightarrow> 'w)"
  scheduler_step :: "int \<Rightarrow> 'o \<Rightarrow> 'o"
  get_lr :: "'o \<Rightarrow> real list"
  make_grid :: "real tensor \<Rightarrow> real tensor"
  sigmoid :: "real tensor \<Rightarrow> real tensor"

datatype log_entry = Add_scalar string real int | Add_image string "real tensor" int

type_synonym writer = "log_entry list"

section \<open>One batch\<close>

text \<open>The variables an iteration of either loop assigns.\<close>

record 'g batch_vars =
  v_x :: "real tensor"
  v_dom :: "int tensor"
  v_y_pred :: "real tensor"
  v_dom_pred :: "real tensor"
  v_loss_rec :: "'g scalar"
  v_loss_dom :: "'g scalar"
  v_loss :: "'g scalar"

text \<open>
  The statements both loops share, from ``get the inputs'' to ``compute loss'' (lines
  180--198 of \<^verbatim>\<open>train_epoch\<close>, 260--275 of \<^verbatim>\<open>test_epoch\<close>); moving a tensor to the
  device does not change it.
\<close>

definition batch_pass ::
  "('w, 'g::real_vector, 'o) torch \<Rightarrow> ('w, 'g) loss_fn \<Rightarrow> 'w UNetAE
   \<Rightarrow> (nat \<times> real tensor) list \<Rightarrow> nat \<Rightarrow> real tensor \<Rightarrow> error + 'g batch_vars" where
  "batch_pass T loss_fn self tar_data i batch =
     (let x_src = batch
      in case py_index tar_data i of
           Inl e \<Rightarrow> Inl e
         | Inr td \<Rightarrow>
      (let x_tar = snd td
       in case cat0 x_src x_tar of
            Inl e \<Rightarrow> Inl e
          | Inr x \<Rightarrow>
       (case size0 x_src of
            Inl e \<Rightarrow> Inl e
          | Inr n_src \<Rightarrow>
       (let dom_src = zeros n_src
        in case size0 x_tar of
             Inl e \<Rightarrow> Inl e
           | Inr n_tar \<Rightarrow>
       (let dom_tar = ones n_tar
        in case cat0 dom_src dom_tar of
             Inl e \<Rightarrow> Inl e
           | Inr dom_lbl \<Rightarrow>
       (case UNetAE_forward (run T) self x of
             Inl e \<Rightarrow> Inl e
           | Inr (y_pred, dom_pred) \<Rightarrow>
       (let loss_rec = loss_fn self y_pred x;
            loss_dom = CrossEntropyLoss T self dom_pred dom_lbl;
            loss = s_add loss_rec (s_mul (lambda_rec self) loss_dom)
        in Inr \<lparr> v_x = x, v_dom = dom_lbl, v_y_pred = y_pred, v_dom_pred = dom_pred,
                 v_loss_rec = loss_rec, v_loss_dom = loss_dom, v_loss = loss \<rparr>)))))))"

text \<open>\<^verbatim>\<open>list(enumerate(tar_loader))\<close>.\<close>

definition enumerate_loader :: "loader \<Rightarrow> (nat \<times> real tensor) list" where
  "enumerate_loader l = enumerate 0 (batches l)"

text \<open>The running sums and the variables that outlive the loop.\<close>

record 'g running =
  loss_rec_cum :: real
  loss_dom_cum :: real
  loss_cum :: real
  cnt :: nat
  last_vars :: "'g batch_vars option"

definition running0 :: "'g running" where
  "running0 = \<lparr> loss_rec_cum = 0, loss_dom_cum = 0, loss_cum = 0, cnt = 0, last_vars = None \<rparr>"

definition accumulate :: "'g running \<Rightarrow> 'g batch_vars \<Rightarrow> 'g running" where
  "accumulate r v =
     \<lparr> loss_rec_cum = loss_rec_cum r + val (v_loss_rec v),
       loss_dom_cum = loss_dom_cum r + val (v_loss_dom v),
       loss_cum = loss_cum r + val (v_loss v),
       cnt = cnt r + 1,
       last_vars = Some v \<rparr>"

section \<open>One epoch of training, one epoch of testing\<close>

text \<open>
  The loop of \<^verbatim>\<open>train_epoch\<close> over the batches of the source loader that remain, each
  with its index. The state is the model, the optimizer and the running sums. The
  gradient buffers are zeroed before every backward pass, so the optimizer steps along
  the gradient of this batch's loss. Printing leaves no trace, but its arguments are
  evaluated.
\<close>

fun train_loop ::
  "('w, 'g::real_vector, 'o) torch \<Rightarrow> ('w, 'g) loss_fn \<Rightarrow> int \<Rightarrow> loader
   \<Rightarrow> (nat \<times> real tensor) list \<Rightarrow> (nat \<times> real tensor) list
   \<Rightarrow> 'w UNetAE \<times> 'o \<times> 'g running \<Rightarrow> error + ('w UNetAE \<times> 'o \<times> 'g running)" where
  "train_loop T loss_fn print_stats src_loader tar_data [] st = Inr st"
| "train_loop T loss_fn print_stats src_loader tar_data ((i, batch) # rest) (self, optimizer, r) =
     (case batch_pass T loss_fn self tar_data i batch of
        Inl e \<Rightarrow> Inl e
      | Inr v \<Rightarrow>
          (let r = accumulate r v;
               stepped = optimizer_step T (grad (v_loss v)) optimizer;
               optimizer = fst stepped;
               self = update_weights (snd stepped) self
           in case py_mod (int i) print_stats of
                Inl e \<Rightarrow> Inl e
              | Inr m \<Rightarrow>
                  (case (if m = 0
                         then (case batch_size src_loader of
                                 None \<Rightarrow> Inl TypeError
                               | Some b \<Rightarrow> py_truediv (real (dataset_len src_loader)) (real b))
                         else Inr 0) of
                     Inl e \<Rightarrow> Inl e
                   | Inr _ \<Rightarrow>
                       train_loop T loss_fn print_stats src_loader tar_data rest
                         (self, optimizer, r))))"

text \<open>
  ``log everything'': the three averages, and with \<open>write_images\<close> the input and the
  reconstruction of the last batch. \<open>tag\<close> is \<^verbatim>\<open>train\<close> or \<^verbatim>\<open>test\<close>.
\<close>

definition log_epoch ::
  "('w, 'g, 'o) torch \<Rightarrow> string \<Rightarrow> writer option \<Rightarrow> bool \<Rightarrow> 'g running
   \<Rightarrow> real \<Rightarrow> real \<Rightarrow> real \<Rightarrow> int \<Rightarrow> error + writer option" where
  "log_epoch T tag writer write_images r loss_rec_avg loss_dom_avg loss_avg epoch =
     (case writer of
        None \<Rightarrow> Inr None
      | Some w \<Rightarrow>
          (let w = w @ [Add_scalar (tag @ ''/loss-rec'') loss_rec_avg epoch,
                        Add_scalar (tag @ ''/loss-dom'') loss_dom_avg epoch,
                        Add_scalar (tag @ ''/loss'') loss_avg epoch]
           in if write_images
              then (case last_vars r of
                      None \<Rightarrow> Inl NameError
                    | Some v \<Rightarrow>
                        (let x = make_grid T (v_x v);
                             x_rec = make_grid T (sigmoid T (v_y_pred v))
                         in Inr (Some (w @ [Add_image (tag @ ''/x-rec-input'') x epoch,
                                            Add_image (tag @ ''/x-rec-output'') x_rec epoch]))))
              else Inr (Some w)))"

text \<open>The averages after either loop, the log, and the value returned.\<close>

definition finish_epoch ::
  "('w, 'g, 'o) torch \<Rightarrow> string \<Rightarrow> writer option \<Rightarrow> bool \<Rightarrow> 'g running \<Rightarrow> int
   \<Rightarrow> error + (real \<times> writer option)" where
  "finish_epoch T tag writer write_images r epoch =
     (case py_truediv (loss_rec_cum r) (real (cnt r)) of
        Inl e \<Rightarrow> Inl e
      | Inr loss_rec_avg \<Rightarrow>
     (case py_truediv (loss_dom_cum r) (real (cnt r)) of
        Inl e \<Rightarrow> Inl e
      | Inr loss_dom_avg \<Rightarrow>
     (case py_truediv (loss_cum r) (real (cnt r)) of
        Inl e \<Rightarrow> Inl e
      | Inr loss_avg \<Rightarrow>
     (case log_epoch T tag writer write_images r loss_rec_avg loss_dom_avg loss_avg epoch of
        Inl e \<Rightarrow> Inl e
      | Inr writer \<Rightarrow> Inr (loss_avg, writer)))))"

text \<open>
  \<^verbatim>\<open>train_epoch\<close> returns the average loss; the model, the optimizer and the writer
  are objects it changes, returned with it.
\<close>

definition train_epoch ::
  "('w, 'g::real_vector, 'o) torch \<Rightarrow> 'w UNetAE \<Rightarrow> loader \<Rightarrow> loader \<Rightarrow> ('w, 'g) loss_fn
   \<Rightarrow> 'o \<Rightarrow> int \<Rightarrow> int \<Rightarrow> writer option \<Rightarrow> bool
   \<Rightarrow> error + (real \<times> 'w UNetAE \<times> 'o \<times> writer option)" where
  "train_epoch T self src_loader tar_loader loss_fn optimizer epoch print_stats writer
     write_images =
     (let self = update_weights (set_training T True) self;
          tar_data = enumerate_loader tar_loader
      in case train_loop T loss_fn print_stats src_loader tar_data
                (enumerate_loader src_loader) (self, optimizer, running0) of
           Inl e \<Rightarrow> Inl e
         | Inr (self, optimizer, r) \<Rightarrow>
             (case finish_epoch T ''train'' writer write_images r epoch of
                Inl e \<Rightarrow> Inl e
              | Inr (loss_avg, writer) \<Rightarrow> Inr (loss_avg, self, optimizer, writer)))"

fun test_loop ::
  "('w, 'g::real_vector, 'o) torch \<Rightarrow> ('w, 'g) loss_fn \<Rightarrow> 'w UNetAE
   \<Rightarrow> (nat \<times> real tensor) list \<Rightarrow> (nat \<times> real tensor) list
   \<Rightarrow> 'g running \<Rightarrow> error + 'g running" where
  "test_loop T loss_fn self tar_data [] r = Inr r"
| "test_loop T loss_fn self tar_data ((i, batch) # rest) r =
     (case batch_pass T loss_fn self tar_data i batch of
        Inl e \<Rightarrow> Inl e
      | Inr v \<Rightarrow> test_loop T loss_fn self tar_data rest (accumulate r v))"

definition test_epoch ::
  "('w, 'g::real_vector, 'o) torch \<Rightarrow> 'w UNetAE \<Rightarrow> loader \<Rightarrow> loader \<Rightarrow> ('w, 'g) loss_fn
   \<Rightarrow> int \<Rightarrow> writer option \<Rightarrow> bool \<Rightarrow> error + (real \<times> 'w UNetAE \<times> writer option)" where
  "test_epoch T self src_loader tar_loader loss_fn epoch writer write_images =
     (let self = update_weights (set_training T False) self;
          tar_data = enumerate_loader tar_loader
      in case test_loop T loss_fn self tar_data (enumerate_loader src_loader) running0 of
           Inl e \<Rightarrow> Inl e
         | Inr r \<Rightarrow>
             (case finish_epoch T ''test'' writer write_images r epoch of
                Inl e \<Rightarrow> Inl e
              | Inr (loss_avg, writer) \<Rightarrow> Inr (loss_avg, self, writer)))"

section \<open>The training run\<close>

text \<open>
  What a run does that is seen from outside, in order: the calls of \<^verbatim>\<open>train_epoch\<close>,
  of the scheduler's \<open>step\<close> and of \<^verbatim>\<open>test_epoch\<close> (with the loss it returned) that
  came back, and the files written by \<^verbatim>\<open>torch.save\<close>.
\<close>

datatype event = Train_epoch int | Scheduler_step int | Test_epoch int real | Save string

text \<open>\<^verbatim>\<open>os.path.join(log_dir, name)\<close> for a relative \<open>name\<close>.\<close>

definition os_path_join :: "string option \<Rightarrow> string \<Rightarrow> error + string" where
  "os_path_join dir name =
     (case dir of
        None \<Rightarrow> Inl TypeError
      | Some d \<Rightarrow>
          Inr (if d = [] then name
               else if last d = CHR ''/'' then d @ name
               else d @ ''/'' @ name))"

text \<open>
  \<^verbatim>\<open>test_loss < test_loss_min\<close>; \<open>None\<close> is the initial \<^verbatim>\<open>np.inf\<close>, above every loss.
\<close>

fun below :: "real \<Rightarrow> real option \<Rightarrow> bool" where
  "below l None = True"
| "below l (Some m) = (l < m)"

text \<open>The arguments of \<^verbatim>\<open>train_net\<close>.\<close>

record ('w, 'g) net_args =
  src_train_loader :: loader
  src_test_loader :: loader
  tar_train_loader :: loader
  tar_test_loader :: loader
  loss_fn :: "('w, 'g) loss_fn"
  lr :: real
  step_size :: int
  gamma :: real
  epochs :: int
  test_freq :: int
  print_stats :: int
  log_dir :: "string option"
  write_images_freq :: int

text \<open>The block under \<^verbatim>\<open>if epoch % test_freq == 0\<close>.\<close>

definition net_test ::
  "('w, 'g::real_vector, 'o) torch \<Rightarrow> ('w, 'g) net_args \<Rightarrow> int
   \<Rightarrow> 'w UNetAE \<times> writer option \<times> real option
   \<Rightarrow> event list \<times> (error + ('w UNetAE \<times> writer option \<times> real option))" where
  "net_test T a epoch st =
     (case st of (self, writer, test_loss_min) \<Rightarrow>
      (case test_epoch T self (src_test_loader a) (tar_test_loader a) (loss_fn a) epoch writer
              True of
         Inl e \<Rightarrow> ([], Inl e)
       | Inr (test_loss, self, writer) \<Rightarrow>
           (if below test_loss test_loss_min
            then (case os_path_join (log_dir a) ''best_checkpoint.pytorch'' of
                    Inl e \<Rightarrow> ([Test_epoch epoch test_loss], Inl e)
                  | Inr path \<Rightarrow>
                      ([Test_epoch epoch test_loss, Save path],
                       Inr (self, writer, Some test_loss)))
            else ([Test_epoch epoch test_loss], Inr (self, writer, test_loss_min)))))"

text \<open>
  The body of the loop of \<^verbatim>\<open>train_net\<close>. The scheduler is never \<^verbatim>\<open>None\<close>. The
  first component is what the epoch did before it ended or raised.
\<close>

definition net_epoch ::
  "('w, 'g::real_vector, 'o) torch \<Rightarrow> ('w, 'g) net_args \<Rightarrow> int
   \<Rightarrow> 'w UNetAE \<times> 'o \<times> writer option \<times> real option
   \<Rightarrow> event list \<times> (error + ('w UNetAE \<times> 'o \<times> writer option \<times> real option))" where
  "net_epoch T a epoch st =
     (case st of (self, optimizer, writer, test_loss_min) \<Rightarrow>
      (case py_mod epoch (write_images_freq a) of
         Inl e \<Rightarrow> ([], Inl e)
       | Inr wm \<Rightarrow>
      (case train_epoch T self (src_train_loader a) (tar_train_loader a) (loss_fn a) optimizer
              epoch (print_stats a) writer (wm = 0) of
         Inl e \<Rightarrow> ([], Inl e)
       | Inr (train_loss, self, optimizer, writer) \<Rightarrow>
      (let optimizer = scheduler_step T epoch optimizer;
           ev = [Train_epoch epoch, Scheduler_step epoch]
       in case writer of
            None \<Rightarrow> (ev, Inl AttributeError)
          | Some w \<Rightarrow>
      (case py_index (get_lr T optimizer) 0 of
            Inl e \<Rightarrow> (ev, Inl e)
          | Inr lr0 \<Rightarrow>
      (let writer = Some (w @ [Add_scalar ''learning_rate'' lr0 epoch])
       in case py_mod epoch (test_freq a) of
            Inl e \<Rightarrow> (ev, Inl e)
          | Inr tm \<Rightarrow>
      (case (if tm = 0 then net_test T a epoch (self, writer, test_loss_min)
             else ([], Inr (self, writer, test_loss_min))) of
            (ev_test, Inl e) \<Rightarrow> (ev @ ev_test, Inl e)
          | (ev_test, Inr (self, writer, test_loss_min)) \<Rightarrow>
      (case os_path_join (log_dir a) ''checkpoint.pytorch'' of
            Inl e \<Rightarrow> (ev @ ev_test, Inl e)
          | Inr path \<Rightarrow>
              (ev @ ev_test @ [Save path],
               Inr (self, optimizer, writer, test_loss_min))))))))))"

fun net_loop ::
  "('w, 'g::real_vector, 'o) torch \<Rightarrow> ('w, 'g) net_args \<Rightarrow> int list
   \<Rightarrow> 'w UNetAE \<times> 'o \<times> writer option \<times> real option
   \<Rightarrow> event list \<times> (error + ('w UNetAE \<times> 'o \<times> writer option \<times> real option))" where
  "net_loop T a [] st = ([], Inr st)"
| "net_loop T a (epoch # rest) st =
     (case net_epoch T a epoch st of
        (ev, Inl e) \<Rightarrow> (ev, Inl e)
      | (ev, Inr st) \<Rightarrow>
          (case net_loop T a rest st of (ev_rest, res) \<Rightarrow> (ev @ ev_rest, res)))"

text \<open>
  \<^verbatim>\<open>train_net\<close>: the events of the run, and the error it raised or the model, the
  optimizer and the closed writer it leaves.
\<close>

definition train_net ::
  "('w, 'g::real_vector, 'o) torch \<Rightarrow> 'w UNetAE \<Rightarrow> ('w, 'g) net_args
   \<Rightarrow> event list \<times> (error + ('w UNetAE \<times> 'o \<times> writer))" where
  "train_net T self a =
     (let writer = (case log_dir a of None \<Rightarrow> None | Some d \<Rightarrow> Some []);
          optimizer = Adam T self (lr a);
          optimizer = StepLR T optimizer (step_size a) (gamma a)
      in case net_loop T a (map int [0..<nat (epochs a)]) (self, optimizer, writer, None) of
           (ev, Inl e) \<Rightarrow> (ev, Inl e)
         | (ev, Inr (self, optimizer, writer, test_loss_min)) \<Rightarrow>
             (case writer of
                None \<Rightarrow> (ev, Inl AttributeError)
              | Some w \<Rightarrow> (ev, Inr (self, optimizer, w))))"

section \<open>Models whose modules are all registered\<close>

text \<open>
  The forward passes look their modules up by name. These predicates say that every name
  the loops of an encoder, a decoder or a model ask for is there.
\<close>

definition enc_ok :: "'w UNetEncoder \<Rightarrow> bool" where
  "enc_ok e = list_all (\<lambda>i. enc_features e (Convblock (i + 1)) \<noteq> None
                            \<and> enc_features e (Pool (i + 1)) \<noteq> None) [0..<nat (enc_levels e)]"

definition dec_ok :: "'w UNetDecoder \<Rightarrow> bool" where
  "dec_ok d = list_all (\<lambda>i. dec_features d (Upconv (i + 1)) \<noteq> None
                            \<and> dec_features d (Convblock (i + 1)) \<noteq> None) [0..<nat (dec_levels d)]"

definition built :: "'w UNetAE \<Rightarrow> bool" where
  "built m = (enc_ok (encoder m) \<and> dec_ok (decoder m) \<and> \<not> skip_connections (decoder m))"

text \<open>
  One level of a decoder without skip connections: the upsampling block on the feature
  map alone, then the convolutional block.
\<close>

definition dec_step :: "'w runner \<Rightarrow> 'w UNetDecoder \<Rightarrow> nat \<Rightarrow> real tensor \<Rightarrow> real tensor" where
  "dec_step rn d i outs =
     call rn (the (dec_features d (Convblock (i + 1))))
       [call rn (the (dec_features d (Upconv (i + 1)))) [outs]]"

section \<open>The state of a training epoch at a given batch\<close>

text \<open>
  What \<^verbatim>\<open>train_epoch\<close> has made of the model, the optimizer and the running sums when
  it reaches the batch of index \<open>k\<close>: the result of its loop over the first \<open>k\<close> batches.
\<close>

definition train_state_at ::
  "('w, 'g::real_vector, 'o) torch \<Rightarrow> 'w UNetAE \<Rightarrow> loader \<Rightarrow> loader \<Rightarrow> ('w, 'g) loss_fn
   \<Rightarrow> 'o \<Rightarrow> int \<Rightarrow> nat \<Rightarrow> error + ('w UNetAE \<times> 'o \<times> 'g running)" where
  "train_state_at T self src_loader tar_loader lf optimizer ps k =
     train_loop T lf ps src_loader (enumerate_loader tar_loader)
       (take k (enumerate_loader src_loader))
       (update_weights (set_training T True) self, optimizer, running0)"


section \<open>What a training run is said to do\<close>






section \<open>A small model to compute with\<close>

text \<open>
  Blocks that return all the elements of their arguments, one argument after the other,
  as a vector: whatever is passed to a block shows in its result. Weights are immaterial.
\<close>

definition ex_run :: "unit runner" where
  "ex_run m w args = Tensor [length (concat (map data args))] (concat (map data args))"

definition ex_w0 :: "mod_name list \<Rightarrow> unit" where
  "ex_w0 path = ()"

text \<open>\<^verbatim>\<open>UNetAE(in_channels=1, out_channels=1, feature_maps=2, levels=1, s=4)\<close>.\<close>

definition ex_model :: "unit UNetAE" where
  "ex_model = projr (UNetAE_init ex_w0 1 1 2 1 False 0 4)"

text \<open>
  A library to go with it: weights never change, the reconstruction loss is the sum of
  the elements of the prediction, the domain loss the number of labels; every gradient
  is 1. Then two loaders of one batch each, and a loader without batches.
\<close>

definition ex_torch :: "(unit, real, unit) torch" where
  "ex_torch = \<lparr> run = ex_run,
                set_training = (\<lambda>b p w. w),
                CrossEntropyLoss = (\<lambda>m p d. Scalar (real (length (data d))) 1),
                Adam = (\<lambda>m l. ()),
                StepLR = (\<lambda>ob s g. ob),
                optimizer_step = (\<lambda>g ob. (ob, \<lambda>p w. w)),
                scheduler_step = (\<lambda>e ob. ob),
                get_lr = (\<lambda>ob. [1]),
                make_grid = (\<lambda>t. t),
                sigmoid = (\<lambda>t. t) \<rparr>"

definition ex_loss_fn :: "(unit, real) loss_fn" where
  "ex_loss_fn m y x = Scalar (sum_list (data y)) 1"

definition ex_src :: loader where
  "ex_src = \<lparr> dataset_len = 1, batch_size = Some 1, batches = [Tensor [1] [5]] \<rparr>"

definition ex_tar :: loader where
  "ex_tar = \<lparr> dataset_len = 1, batch_size = Some 1, batches = [Tensor [1] [7]] \<rparr>"

definition ex_none :: loader where
  "ex_none = \<lparr> dataset_len = 0, batch_size = Some 1, batches = [] \<rparr>"


text \<open>
  The arguments of a run of two epochs, tested in every epoch, logged under \<^verbatim>\<open>log\<close>.
\<close>

definition ex_args :: "(unit, real) net_args" where
  "ex_args = \<lparr> src_train_loader = ex_src, src_test_loader = ex_src,
               tar_train_loader = ex_tar, tar_test_loader = ex_tar,
               loss_fn = ex_loss_fn, lr = 1 / 1000, step_size = 1, gamma = 1,
               epochs = 2, test_freq = 1, print_stats = 1, log_dir = Some ''log'',
               write_images_freq = 1 \<rparr>"

section \<open>Lemmas: construction and forward passes\<close>

lemma view_as_self: "view_as x x = Inr x"
  by (simp add: view_as_def view_def numel_def)

lemma enc_init_fold_dom:
  "i < n \<Longrightarrow>
   fst (fold (enc_init_step w0 fm gn) [0..<n] st) (Convblock (Suc i)) \<noteq> None \<and>
   fst (fold (enc_init_step w0 fm gn) [0..<n] st) (Pool (Suc i)) \<noteq> None"
proof (induction n)
  case 0
  then show ?case by simp
next
  case (Suc n)
  show ?case
  proof (cases "i = n")
    case True
    then show ?thesis by (simp add: enc_init_step_def add_module_def Let_def)
  next
    case False
    with Suc.prems have "i < n" by simp
    from Suc.IH [OF this] show ?thesis
      by (simp add: enc_init_step_def add_module_def Let_def)
  qed
qed

lemma enc_ok_init: "enc_ok (UNetEncoder_init w0 ic fm lv gn)"
  by (simp add: enc_ok_def UNetEncoder_init_def list_all_iff enc_init_fold_dom del: not_None_eq)

lemma dec_init_fold_dom:
  "i < n \<Longrightarrow>
   fold (dec_init_step w0 fm lv sk gn) [0..<n] st (Upconv (Suc i)) \<noteq> None \<and>
   fold (dec_init_step w0 fm lv sk gn) [0..<n] st (Convblock (Suc i)) \<noteq> None"
proof (induction n)
  case 0
  then show ?case by simp
next
  case (Suc n)
  show ?case
  proof (cases "i = n")
    case True
    then show ?thesis by (simp add: dec_init_step_def add_module_def Let_def)
  next
    case False
    with Suc.prems have "i < n" by simp
    from Suc.IH [OF this] show ?thesis
      by (simp add: dec_init_step_def add_module_def Let_def)
  qed
qed

lemma dec_ok_init: "dec_ok (UNetDecoder_init w0 ic oc fm lv sk gn)"
  by (simp add: dec_ok_def UNetDecoder_init_def list_all_iff dec_init_fold_dom del: not_None_eq)

lemma skip_init: "skip_connections (UNetDecoder_init w0 ic oc fm lv sk gn) = sk"
  by (simp add: UNetDecoder_init_def)

lemma py_pow2_pos: "0 < py_pow2 k"
  by (simp add: py_pow2_def)

lemma UNetAE_init_returns: "\<exists>m. UNetAE_init w0 ic oc fm lv gn lam s = Inr m"
  using py_pow2_pos [of lv] by (simp add: UNetAE_init_def py_floordiv_def Let_def)

lemma encoder_loop_returns:
  "list_all (\<lambda>i. features (Convblock (i + 1)) \<noteq> None \<and> features (Pool (i + 1)) \<noteq> None) js
   \<Longrightarrow> \<exists>r. encoder_loop rn features js encs outs = Inr r"
  by (induction js arbitrary: encs outs) (auto simp add: getattr_def Let_def)

lemma UNetEncoder_forward_reverse:
  "UNetEncoder_forward rn e x = Inr (encs, lat, rv) \<Longrightarrow> rv = lat"
  by (auto simp add: UNetEncoder_forward_def ReverseLayerF_apply_def ReverseLayerF_forward_def
        view_as_self Let_def split: sum.splits prod.splits)

lemma UNetEncoder_forward_returns:
  assumes "enc_ok e"
  shows "\<exists>encs lat. UNetEncoder_forward rn e x = Inr (encs, lat, lat)"
proof -
  from assms obtain r where "encoder_loop rn (enc_features e) [0..<nat (enc_levels e)] [] x = Inr r"
    unfolding enc_ok_def using encoder_loop_returns by blast
  then show ?thesis
    by (cases r)
       (simp add: UNetEncoder_forward_def ReverseLayerF_apply_def ReverseLayerF_forward_def
          view_as_self Let_def)
qed

lemma decoder_loop_noskip:
  "\<not> skip_connections d \<Longrightarrow>
   decoder_loop rn d encs js decs outs = decoder_loop rn d encs' js decs outs"
  by (induction js arbitrary: decs outs) (auto simp add: Let_def split: sum.splits)

lemma decoder_loop_returns:
  "\<not> skip_connections d \<Longrightarrow>
   list_all (\<lambda>i. dec_features d (Upconv (i + 1)) \<noteq> None
                 \<and> dec_features d (Convblock (i + 1)) \<noteq> None) js \<Longrightarrow>
   \<exists>r. decoder_loop rn d encs js decs outs = Inr r"
  by (induction js arbitrary: decs outs) (auto simp add: getattr_def Let_def)

lemma UNetDecoder_forward_noskip:
  "\<not> skip_connections d \<Longrightarrow>
   snd (UNetDecoder_forward rn d x encs) = snd (UNetDecoder_forward rn d x encs')"
  using decoder_loop_noskip [of d rn "rev encs" _ "[]" x "rev encs'"]
  by (simp add: UNetDecoder_forward_def Let_def)

lemma UNetDecoder_forward_returns:
  assumes "\<not> skip_connections d" "dec_ok d"
  shows "\<exists>r. snd (UNetDecoder_forward rn d x encs) = Inr r"
proof -
  from assms obtain r where
    "decoder_loop rn d (rev encs) [0..<nat (dec_levels d)] [] x = Inr r"
    unfolding dec_ok_def using decoder_loop_returns by blast
  then show ?thesis
    by (cases r) (simp add: UNetDecoder_forward_def Let_def)
qed

lemma UNetAE_forward_returns:
  assumes "built m"
  shows "\<exists>r. UNetAE_forward rn m x = Inr r"
proof -
  from assms have e: "enc_ok (encoder m)" and d: "dec_ok (decoder m)"
    and s: "\<not> skip_connections (decoder m)"
    by (simp_all add: built_def)
  from UNetEncoder_forward_returns [OF e] obtain encs lat where
    enc: "UNetEncoder_forward rn (encoder m) x = Inr (encs, lat, lat)" by blast
  from UNetDecoder_forward_returns [OF s d] obtain r where
    "snd (UNetDecoder_forward rn (decoder m) lat encs) = Inr r" by blast
  with enc show ?thesis
    by (cases r) (simp add: UNetAE_forward_def Let_def)
qed

lemma enc_ok_update: "enc_ok (update_encoder f e) = enc_ok e"
  by (simp add: enc_ok_def update_encoder_def update_features_def)

lemma dec_ok_update: "dec_ok (update_decoder f d) = dec_ok d"
  by (simp add: dec_ok_def update_decoder_def update_features_def)

lemma skip_update: "skip_connections (update_decoder f d) = skip_connections d"
  by (simp add: update_decoder_def)

lemma built_update: "built (update_weights f m) = built m"
  by (simp add: built_def update_weights_def enc_ok_update dec_ok_update skip_update)

lemma lambda_rec_update: "lambda_rec (update_weights f m) = lambda_rec m"
  by (simp add: update_weights_def)

lemma built_init:
  "UNetAE_init w0 ic oc fm lv gn lam s = Inr m \<Longrightarrow> built m"
  by (auto simp add: UNetAE_init_def built_def Let_def enc_ok_init dec_ok_init skip_init
        split: sum.splits)

lemma decoder_loop_noskip_fold:
  "\<not> skip_connections d \<Longrightarrow>
   list_all (\<lambda>i. dec_features d (Upconv (i + 1)) \<noteq> None
                 \<and> dec_features d (Convblock (i + 1)) \<noteq> None) js \<Longrightarrow>
   \<exists>decs'. decoder_loop rn d encs js decs outs = Inr (decs', fold (dec_step rn d) js outs)"
  by (induction js arbitrary: decs outs) (auto simp add: getattr_def Let_def dec_step_def)

lemma UNetDecoder_forward_noskip_fold:
  assumes "\<not> skip_connections d" "dec_ok d"
  shows "\<exists>decs. snd (UNetDecoder_forward rn d x encs) =
           Inr (decs, call rn (output_layer d) [fold (dec_step rn d) [0..<nat (dec_levels d)] x])"
proof -
  from assms obtain decs where
    "decoder_loop rn d (rev encs) [0..<nat (dec_levels d)] [] x
       = Inr (decs, fold (dec_step rn d) [0..<nat (dec_levels d)] x)"
    unfolding dec_ok_def using decoder_loop_noskip_fold by blast
  then show ?thesis
    by (simp add: UNetDecoder_forward_def Let_def)
qed

lemma UNetEncoder_forward_center:
  "UNetEncoder_forward rn e x = Inr (encs, lat, rv) \<Longrightarrow>
   \<exists>p. encoder_loop rn (enc_features e) [0..<nat (enc_levels e)] [] x = Inr (encs, p)
        \<and> lat = call rn (center_conv e) [p]"
  by (auto simp add: UNetEncoder_forward_def Let_def split: sum.splits prod.splits)

lemma UNetAE_forward_domain:
  "UNetAE_forward rn m x = Inr (outs, dm) \<Longrightarrow>
   \<exists>encs lat. UNetEncoder_forward rn (encoder m) x = Inr (encs, lat, lat)
      \<and> dm = call rn (domain_classifier m) [lat]"
  by (auto simp add: UNetAE_forward_def Let_def split: sum.splits prod.splits
           dest: UNetEncoder_forward_reverse)

lemma classifier_init:
  "UNetAE_init w0 ic oc fm lv gn lam s = Inr m \<Longrightarrow>
   \<exists>sz. fst (domain_classifier m) = CNN sz [48, 48, 48] [48, 24, 2]"
  by (auto simp add: UNetAE_init_def Let_def split: sum.splits)

lemma classifier_update:
  "fst (domain_classifier (update_weights f m)) = fst (domain_classifier m)"
  by (simp add: update_weights_def update_layer_def)

lemmas ex_eval = UNetAE_init_def py_floordiv_def py_pow2_def UNetAE_forward_def UNetDecoder_forward_def
  UNetDecoder_init_def dec_init_step_def UNetEncoder_forward_def UNetEncoder_init_def enc_init_step_def
  add_module_def getattr_def call_def ex_run_def ReverseLayerF_apply_def ReverseLayerF_forward_def
  view_as_self Let_def ex_w0_def py_index_def ex_model_def

lemma ex_model_init: "UNetAE_init ex_w0 1 1 2 1 False 0 4 = Inr ex_model"
  by (simp add: ex_model_def UNetAE_init_def py_floordiv_def py_pow2_def Let_def)

section \<open>The gradient-reversal layer\<close>

text \<open>
  C1. For every input tensor \<open>t\<close> (and every context), \<open>ReverseLayerF.forward\<close> returns a
  tensor equal to \<open>t\<close>: the layer is the identity in the forward pass. So whenever
  \<open>UNetEncoder.forward\<close> returns, its third result, the reversed latent, equals its
  second, which is the output of the center block; and whenever \<open>UNetAE.forward\<close>
  returns, the domain prediction is the domain classifier applied to that tensor.
\<close>

theorem ReverseLayerF_forward_identity:
  "ReverseLayerF_forward ctx t = Inr t \<and>
   (UNetEncoder_forward rn e x = Inr (encs, lat, rv) \<longrightarrow>
      rv = lat \<and>
      (\<exists>p. encoder_loop rn (enc_features e) [0..<nat (enc_levels e)] [] x = Inr (encs, p)
           \<and> lat = call rn (center_conv e) [p])) \<and>
   (UNetAE_forward rn m x = Inr (outs, dm) \<longrightarrow>
      (\<exists>encs' lat'. UNetEncoder_forward rn (encoder m) x = Inr (encs', lat', lat')
          \<and> dm = call rn (domain_classifier m) [lat']))"
  using UNetEncoder_forward_reverse [of rn e x encs lat rv]
        UNetEncoder_forward_center [of rn e x encs lat rv]
        UNetAE_forward_domain [of rn m x outs dm]
  by (simp add: ReverseLayerF_forward_def view_as_self)

theorem ReverseLayerF_forward_identity_witness:
  "UNetEncoder_forward ex_run (encoder ex_model) (Tensor [1] [5])
     = Inr ([Tensor [1] [5]], Tensor [1] [5], Tensor [1] [5]) \<and>
   UNetAE_forward ex_run ex_model (Tensor [1] [5]) = Inr (Tensor [1] [5], Tensor [1] [5]) \<and>
   ReverseLayerF_forward () (Tensor [1] [5::real]) = Inr (Tensor [1] [5])"
  using ReverseLayerF_forward_identity
          [of "()" "Tensor [1] [5::real]" ex_run "encoder ex_model" "Tensor [1] [5]"
              "[Tensor [1] [5]]" "Tensor [1] [5]" "Tensor [1] [5]"
              ex_model "Tensor [1] [5]" "Tensor [1] [5]"]
  by (simp add: ex_eval)

text \<open>
  C2. For every incoming gradient \<open>g\<close>, \<open>ReverseLayerF.backward\<close> returns, as the
  gradient with respect to its single tensor input, the elementwise negation of \<open>g\<close>:
  the tensor of the size of \<open>g\<close> whose elements are those of \<open>g\<close>, each negated, in the
  same order. The second component of the result is \<^verbatim>\<open>None\<close>.
\<close>

theorem ReverseLayerF_backward_negates:
  "ReverseLayerF_backward ctx g = (Tensor (shape g) (map uminus (data g)), None)"
  by (simp add: ReverseLayerF_backward_def neg_def)

section \<open>The decoder and its skip connections\<close>

text \<open>
  C3, as stated, fails. In the model \<open>ex_model\<close> built by \<open>UNetAE.__init__\<close>, whose blocks
  return everything they are given, the decoder applied to the latent \<open>[5]\<close> and the
  stored encoder output \<open>[7]\<close> returns \<open>[5]\<close>: the encoder output is not combined with
  the feature map. The same decoder with \<open>skip_connections\<close> set returns \<open>[7, 5]\<close>.
\<close>

theorem UNetAE_decoder_skip_counterexample:
  "snd (UNetDecoder_forward ex_run (decoder ex_model) (Tensor [1] [5]) [Tensor [1] [7]])
     = Inr ([Tensor [1] [5]], Tensor [1] [5]) \<and>
   snd (UNetDecoder_forward ex_run ((decoder ex_model)\<lparr>skip_connections := True\<rparr>)
          (Tensor [1] [5]) [Tensor [1] [7]])
     = Inr ([Tensor [2] [7, 5]], Tensor [2] [7, 5])"
  by (simp add: ex_eval)

text \<open>
  C3, amended. The UNetAE model is an encoder-decoder whose decoder is built with
  \<open>skip_connections = False\<close>: in the decoder's forward pass every level applies its
  upsampling block to the decoder feature map alone and then its convolutional block, the
  pass returns, and its result is the same whatever the stored encoder outputs are.
\<close>

theorem UNetAE_decoder_without_skip:
  assumes "UNetAE_init w0 ic oc fm lv gn lam s = Inr m"
  shows "\<not> skip_connections (decoder m) \<and>
         (\<exists>decs. snd (UNetDecoder_forward rn (decoder m) x encs) =
            Inr (decs, call rn (output_layer (decoder m))
                         [fold (dec_step rn (decoder m)) [0..<nat (dec_levels (decoder m))] x])) \<and>
         snd (UNetDecoder_forward rn (decoder m) x encs)
           = snd (UNetDecoder_forward rn (decoder m) x encs')"
proof -
  from built_init [OF assms] have s: "\<not> skip_connections (decoder m)" and d: "dec_ok (decoder m)"
    by (simp_all add: built_def)
  from s UNetDecoder_forward_noskip_fold [OF s d] UNetDecoder_forward_noskip [OF s]
  show ?thesis by blast
qed

theorem UNetAE_decoder_without_skip_witness:
  "UNetAE_init ex_w0 1 1 2 1 False 0 4 = Inr ex_model \<and>
   \<not> skip_connections (decoder ex_model) \<and>
   snd (UNetDecoder_forward ex_run (decoder ex_model) (Tensor [1] [5]) [Tensor [1] [7]])
   = snd (UNetDecoder_forward ex_run (decoder ex_model) (Tensor [1] [5]) [Tensor [1] [8]])"
  using UNetAE_decoder_without_skip
          [OF ex_model_init, of ex_run "Tensor [1] [5]" "[Tensor [1] [7]]" "[Tensor [1] [8]]"]
        ex_model_init
  by blast

text \<open>
  C9. \<open>UNetDecoder.forward\<close> reverses the caller's list \<open>encoder_outputs\<close> in place:
  after the call, whether it returned or raised, the caller's list is the list it
  passed in reversed order, with the same tensors and nothing else changed.
\<close>

theorem UNetDecoder_forward_reverses_argument:
  "fst (UNetDecoder_forward rn d x encs) = rev encs"
  by (simp add: UNetDecoder_forward_def Let_def)

section \<open>The domain classifier\<close>

text \<open>
  C5. For every model that \<open>UNetAE.__init__\<close> builds, as built or after any change of
  its weights, and every input, the forward pass returns, and the domain prediction it
  returns is the domain classifier applied to the gradient-reversed output of the
  encoder's center block. The classifier is a \<open>CNN\<close> whose list of fully-connected
  channels ends in 2, one class per domain.
\<close>

theorem UNetAE_forward_domain_classifier:
  assumes "UNetAE_init w0 ic oc fm lv gn lam s = Inr m0"
      and "m = m0 \<or> m = update_weights f m0"
  shows "(\<exists>encs p lat rv outs.
            encoder_loop rn (enc_features (encoder m)) [0..<nat (enc_levels (encoder m))] [] x
              = Inr (encs, p)
            \<and> lat = call rn (center_conv (encoder m)) [p]
            \<and> ReverseLayerF_apply lat = Inr rv
            \<and> UNetEncoder_forward rn (encoder m) x = Inr (encs, lat, rv)
            \<and> UNetAE_forward rn m x = Inr (outs, call rn (domain_classifier m) [rv]))
         \<and> (\<exists>sz cc fc. fst (domain_classifier m) = CNN sz cc fc \<and> fc = [48, 24, 2] \<and> last fc = 2)"
proof -
  from assms have b: "built m"
    using built_init built_update by blast
  from assms have c: "\<exists>sz. fst (domain_classifier m) = CNN sz [48, 48, 48] [48, 24, 2]"
    using classifier_init classifier_update by metis
  from UNetAE_forward_returns [OF b] obtain outs dm where
    fw: "UNetAE_forward rn m x = Inr (outs, dm)" by fastforce
  from UNetAE_forward_domain [OF fw] obtain encs lat where
    enc: "UNetEncoder_forward rn (encoder m) x = Inr (encs, lat, lat)"
    and dm: "dm = call rn (domain_classifier m) [lat]" by blast
  from UNetEncoder_forward_center [OF enc] obtain p where
    lp: "encoder_loop rn (enc_features (encoder m)) [0..<nat (enc_levels (encoder m))] [] x
           = Inr (encs, p)"
    and lat: "lat = call rn (center_conv (encoder m)) [p]" by blast
  have rv: "ReverseLayerF_apply lat = Inr lat"
    by (simp add: ReverseLayerF_apply_def ReverseLayerF_forward_def view_as_self)
  from lp lat rv enc fw dm c show ?thesis by auto
qed

theorem UNetAE_forward_domain_classifier_witness:
  "UNetAE_init ex_w0 1 1 2 1 False 0 4 = Inr ex_model \<and>
   UNetAE_forward ex_run ex_model (Tensor [1] [5]) = Inr (Tensor [1] [5], Tensor [1] [5]) \<and>
   fst (domain_classifier ex_model) = CNN (4, 2, 2) [48, 48, 48] [48, 24, 2]"
  using UNetAE_forward_domain_classifier
          [OF ex_model_init, of ex_model "\<lambda>p w. w" ex_run "Tensor [1] [5]"]
        ex_model_init
  by (simp add: ex_eval)


section \<open>Lemmas: batches and loops\<close>

lemma batch_pass_Inr:
  assumes "batch_pass T lf m td i b = Inr v"
  shows "\<exists>t ns nt. py_index td i = Inr t \<and> cat0 b (snd t) = Inr (v_x v)
           \<and> size0 b = Inr ns \<and> size0 (snd t) = Inr nt
           \<and> cat0 (zeros ns) (ones nt) = Inr (v_dom v)
           \<and> UNetAE_forward (run T) m (v_x v) = Inr (v_y_pred v, v_dom_pred v)
           \<and> v_loss_rec v = lf m (v_y_pred v) (v_x v)
           \<and> v_loss_dom v = CrossEntropyLoss T m (v_dom_pred v) (v_dom v)
           \<and> v_loss v = s_add (v_loss_rec v) (s_mul (lambda_rec m) (v_loss_dom v))"
  using assms
  by (auto simp add: batch_pass_def Let_def split: sum.splits prod.splits)

lemma cat0_labels: "cat0 (zeros ns) (ones nt) = Inr (Tensor [ns + nt] (replicate ns 0 @ replicate nt 1))"
  by (simp add: cat0_def zeros_def ones_def)

lemma cat0_Inr:
  "cat0 a b = Inr x \<Longrightarrow>
   \<exists>na nb r. shape a = na # r \<and> shape b = nb # r \<and> size0 a = Inr na \<and> size0 b = Inr nb
      \<and> x = Tensor ((na + nb) # r) (data a @ data b)"
  by (auto simp add: cat0_def size0_def split: list.splits if_splits)

lemma cat0_cases: "cat0 a b = Inl RuntimeError \<or> (\<exists>x. cat0 a b = Inr x)"
  by (auto simp add: cat0_def split: list.splits)

lemma batch_pass_returns:
  assumes "built m" "i < length td" "cat0 b (snd (td ! i)) \<noteq> Inl RuntimeError"
  shows "\<exists>v. batch_pass T lf m td i b = Inr v"
proof -
  from assms(3) cat0_cases [of b "snd (td ! i)"] obtain x where x: "cat0 b (snd (td ! i)) = Inr x"
    by blast
  from cat0_Inr [OF x] obtain na nb where
    s: "size0 b = Inr na" "size0 (snd (td ! i)) = Inr nb" by blast
  from UNetAE_forward_returns [OF assms(1)] obtain y d where
    f: "UNetAE_forward (run T) m x = Inr (y, d)" by fastforce
  from assms(2) x s f show ?thesis
    by (simp add: batch_pass_def py_index_def Let_def cat0_labels)
qed

lemma batch_pass_IndexError:
  "length td \<le> i \<Longrightarrow> batch_pass T lf m td i b = Inl IndexError"
  by (simp add: batch_pass_def py_index_def Let_def)

lemma batch_pass_not_IndexError:
  assumes "built m" "i < length td"
  shows "batch_pass T lf m td i b \<noteq> Inl IndexError"
proof (cases "cat0 b (snd (td ! i)) = Inl RuntimeError")
  case True
  with assms(2) show ?thesis by (simp add: batch_pass_def py_index_def Let_def)
next
  case False
  from batch_pass_returns [OF assms False, of T lf] show ?thesis by auto
qed

lemma train_loop_append:
  "train_loop T lf ps sl td (xs @ ys) st =
     (case train_loop T lf ps sl td xs st of
        Inl e \<Rightarrow> Inl e
      | Inr st' \<Rightarrow> train_loop T lf ps sl td ys st')"
proof (induction xs arbitrary: st)
  case Nil
  then show ?case by simp
next
  case (Cons a xs)
  obtain i b where a: "a = (i, b)" by (cases a)
  obtain m ob r where st: "st = (m, ob, r)" by (cases st)
  show ?case
    unfolding a st using Cons.IH
    by (simp add: Let_def split: sum.splits)
qed

lemma train_loop_single:
  assumes "train_loop T lf ps sl td [(i, b)] (m1, o1, r1) = Inr (m, ob, r)"
  shows "\<exists>v. batch_pass T lf m1 td i b = Inr v \<and> r = accumulate r1 v
           \<and> m = update_weights (snd (optimizer_step T (grad (v_loss v)) o1)) m1
           \<and> ob = fst (optimizer_step T (grad (v_loss v)) o1)"
  using assms
  by (auto simp add: Let_def split: sum.splits if_splits option.splits)

lemma train_loop_preserves:
  "train_loop T lf ps sl td xs (m0, o0, r0) = Inr (m, ob, r) \<Longrightarrow>
   lambda_rec m = lambda_rec m0 \<and> built m = built m0"
proof (induction xs arbitrary: m0 o0 r0)
  case Nil
  then show ?case by simp
next
  case (Cons a xs)
  obtain i b where a: "a = (i, b)" by (cases a)
  from Cons.prems obtain v where
    rest: "train_loop T lf ps sl td xs
            (update_weights (snd (optimizer_step T (grad (v_loss v)) o0)) m0,
             fst (optimizer_step T (grad (v_loss v)) o0), accumulate r0 v) = Inr (m, ob, r)"
    unfolding a by (auto simp add: Let_def split: sum.splits if_splits option.splits)
  from Cons.IH [OF rest] show ?case
    by (simp add: lambda_rec_update built_update)
qed

lemma enumerate_snoc: "enumerate n (xs @ [x]) = enumerate n xs @ [(n + length xs, x)]"
  by (simp add: enumerate_append_eq)

lemma sum_accumulate:
  "loss_cum (accumulate r v) = loss_cum r + val (v_loss v) \<and>
   loss_rec_cum (accumulate r v) = loss_rec_cum r + val (v_loss_rec v) \<and>
   loss_dom_cum (accumulate r v) = loss_dom_cum r + val (v_loss_dom v) \<and>
   cnt (accumulate r v) = cnt r + 1 \<and> last_vars (accumulate r v) = Some v"
  by (simp add: accumulate_def)

lemma train_loop_iterations:
  "train_loop T lf ps sl td (enumerate 0 bs) (m0, o0, r0) = Inr (m, ob, r) \<Longrightarrow>
   \<exists>vs. length vs = length bs
      \<and> (\<forall>k<length bs. \<exists>mk ok rk.
            train_loop T lf ps sl td (take k (enumerate 0 bs)) (m0, o0, r0) = Inr (mk, ok, rk)
            \<and> batch_pass T lf mk td k (bs ! k) = Inr (vs ! k))
      \<and> loss_cum r = loss_cum r0 + sum_list (map (\<lambda>v. val (v_loss v)) vs)
      \<and> loss_rec_cum r = loss_rec_cum r0 + sum_list (map (\<lambda>v. val (v_loss_rec v)) vs)
      \<and> loss_dom_cum r = loss_dom_cum r0 + sum_list (map (\<lambda>v. val (v_loss_dom v)) vs)
      \<and> cnt r = cnt r0 + length bs
      \<and> (bs \<noteq> [] \<longrightarrow> last_vars r = Some (last vs))"
proof (induction bs arbitrary: m ob r rule: rev_induct)
  case Nil
  then show ?case by simp
next
  case (snoc b bs)
  from snoc.prems obtain m1 o1 r1 where
    pre: "train_loop T lf ps sl td (enumerate 0 bs) (m0, o0, r0) = Inr (m1, o1, r1)"
    and step: "train_loop T lf ps sl td [(length bs, b)] (m1, o1, r1) = Inr (m, ob, r)"
    by (auto simp add: enumerate_snoc train_loop_append split: sum.splits)
  from train_loop_single [OF step] obtain v where
    v: "batch_pass T lf m1 td (length bs) b = Inr v" and r: "r = accumulate r1 v" by blast
  from snoc.IH [OF pre] obtain vs where
    len: "length vs = length bs"
    and it: "\<forall>k<length bs. \<exists>mk ok rk.
            train_loop T lf ps sl td (take k (enumerate 0 bs)) (m0, o0, r0) = Inr (mk, ok, rk)
            \<and> batch_pass T lf mk td k (bs ! k) = Inr (vs ! k)"
    and sums: "loss_cum r1 = loss_cum r0 + sum_list (map (\<lambda>v. val (v_loss v)) vs)"
      "loss_rec_cum r1 = loss_rec_cum r0 + sum_list (map (\<lambda>v. val (v_loss_rec v)) vs)"
      "loss_dom_cum r1 = loss_dom_cum r0 + sum_list (map (\<lambda>v. val (v_loss_dom v)) vs)"
      "cnt r1 = cnt r0 + length bs"
    by blast
  have "\<exists>mk ok rk.
          train_loop T lf ps sl td (take k (enumerate 0 (bs @ [b]))) (m0, o0, r0) = Inr (mk, ok, rk)
          \<and> batch_pass T lf mk td k ((bs @ [b]) ! k) = Inr ((vs @ [v]) ! k)"
    if k: "k < length (bs @ [b])" for k
  proof (cases "k < length bs")
    case True
    with it len show ?thesis
      by (simp add: enumerate_snoc nth_append)
  next
    case False
    with k have "k = length bs" by simp
    with pre v len show ?thesis
      by (simp add: enumerate_snoc nth_append)
  qed
  with len sums r show ?case
    by (intro exI [of _ "vs @ [v]"]) (simp add: sum_accumulate)
qed

lemma test_loop_append:
  "test_loop T lf m td (xs @ ys) r =
     (case test_loop T lf m td xs r of
        Inl e \<Rightarrow> Inl e
      | Inr r' \<Rightarrow> test_loop T lf m td ys r')"
proof (induction xs arbitrary: r)
  case Nil
  then show ?case by simp
next
  case (Cons a xs)
  obtain i b where a: "a = (i, b)" by (cases a)
  show ?case
    unfolding a using Cons.IH by (simp split: sum.splits)
qed

lemma test_loop_iterations:
  "test_loop T lf m td (enumerate 0 bs) r0 = Inr r \<Longrightarrow>
   \<exists>vs. length vs = length bs
      \<and> (\<forall>k<length bs. batch_pass T lf m td k (bs ! k) = Inr (vs ! k))
      \<and> loss_cum r = loss_cum r0 + sum_list (map (\<lambda>v. val (v_loss v)) vs)
      \<and> loss_rec_cum r = loss_rec_cum r0 + sum_list (map (\<lambda>v. val (v_loss_rec v)) vs)
      \<and> loss_dom_cum r = loss_dom_cum r0 + sum_list (map (\<lambda>v. val (v_loss_dom v)) vs)
      \<and> cnt r = cnt r0 + length bs
      \<and> (bs \<noteq> [] \<longrightarrow> last_vars r = Some (last vs))"
proof (induction bs arbitrary: r rule: rev_induct)
  case Nil
  then show ?case by simp
next
  case (snoc b bs)
  from snoc.prems obtain r1 where
    pre: "test_loop T lf m td (enumerate 0 bs) r0 = Inr r1"
    and step: "test_loop T lf m td [(length bs, b)] r1 = Inr r"
    by (auto simp add: enumerate_snoc test_loop_append split: sum.splits)
  from step obtain v where
    v: "batch_pass T lf m td (length bs) b = Inr v" and r: "r = accumulate r1 v"
    by (auto split: sum.splits)
  from snoc.IH [OF pre] obtain vs where
    len: "length vs = length bs"
    and it: "\<forall>k<length bs. batch_pass T lf m td k (bs ! k) = Inr (vs ! k)"
    and sums: "loss_cum r1 = loss_cum r0 + sum_list (map (\<lambda>v. val (v_loss v)) vs)"
      "loss_rec_cum r1 = loss_rec_cum r0 + sum_list (map (\<lambda>v. val (v_loss_rec v)) vs)"
      "loss_dom_cum r1 = loss_dom_cum r0 + sum_list (map (\<lambda>v. val (v_loss_dom v)) vs)"
      "cnt r1 = cnt r0 + length bs"
    by blast
  have "batch_pass T lf m td k ((bs @ [b]) ! k) = Inr ((vs @ [v]) ! k)"
    if k: "k < length (bs @ [b])" for k
  proof (cases "k < length bs")
    case True
    with it len show ?thesis by (simp add: nth_append)
  next
    case False
    with k have "k = length bs" by simp
    with v len show ?thesis by (simp add: nth_append)
  qed
  with len sums r show ?case
    by (intro exI [of _ "vs @ [v]"]) (simp add: sum_accumulate)
qed

lemma enumerate_Cons': "enumerate j (b # bs) = (j, b) # enumerate (Suc j) bs"
  by simp


lemma train_loop_IndexError:
  assumes "ps \<noteq> 0" "batch_size sl = Some bz" "bz \<noteq> 0"
  shows "built m0 \<Longrightarrow> length td < j + length bs \<Longrightarrow> j \<le> length td \<Longrightarrow>
         (\<forall>k<length bs. j + k < length td \<longrightarrow>
              cat0 (bs ! k) (snd (td ! (j + k))) \<noteq> Inl RuntimeError) \<Longrightarrow>
         train_loop T lf ps sl td (enumerate j bs) (m0, o0, r0) = Inl IndexError"
proof (induction bs arbitrary: j m0 o0 r0)
  case Nil
  then show ?case by simp
next
  case (Cons b bs)
  show ?case
  proof (cases "j < length td")
    case False
    then show ?thesis by (simp add: batch_pass_IndexError)
  next
    case True
    with Cons.prems have c: "cat0 b (snd (td ! j)) \<noteq> Inl RuntimeError" by auto
    from batch_pass_returns [OF Cons.prems(1) True c, of T lf] obtain v where
      v: "batch_pass T lf m0 td j b = Inr v" by blast
    let ?m = "update_weights (snd (optimizer_step T (grad (v_loss v)) o0)) m0"
    have b: "built ?m" using Cons.prems(1) by (simp add: built_update)
    have l: "length td < Suc j + length bs" using Cons.prems(2) by simp
    have r: "\<forall>k<length bs. Suc j + k < length td \<longrightarrow>
               cat0 (bs ! k) (snd (td ! (Suc j + k))) \<noteq> Inl RuntimeError"
      using Cons.prems(4) by fastforce
    have j': "Suc j \<le> length td" using True by simp
    from Cons.IH [OF b l j' r] v assms show ?thesis
      by (simp add: Let_def py_mod_def py_truediv_def)
  qed
qed

lemma train_loop_not_IndexError:
  "built m0 \<Longrightarrow> j + length bs \<le> length td \<Longrightarrow>
   train_loop T lf ps sl td (enumerate j bs) (m0, o0, r0) \<noteq> Inl IndexError"
proof (induction bs arbitrary: j m0 o0 r0)
  case Nil
  then show ?case by simp
next
  case (Cons b bs)
  from Cons.prems have j: "j < length td" by simp
  from batch_pass_not_IndexError [OF Cons.prems(1) j]
  have n: "batch_pass T lf m0 td j b \<noteq> Inl IndexError" .
  have l: "Suc j + length bs \<le> length td" using Cons.prems(2) by simp
  show ?case
  proof (cases "batch_pass T lf m0 td j b")
    case (Inl e)
    with n show ?thesis by simp
  next
    case (Inr v)
    let ?m = "update_weights (snd (optimizer_step T (grad (v_loss v)) o0)) m0"
    have b: "built ?m" using Cons.prems(1) by (simp add: built_update)
    from Cons.IH [OF b l] Inr show ?thesis
      by (auto simp add: Let_def py_mod_def py_truediv_def split: option.splits)
  qed
qed


lemma test_loop_IndexError:
  "built m \<Longrightarrow> length td < j + length bs \<Longrightarrow> j \<le> length td \<Longrightarrow>
   (\<forall>k<length bs. j + k < length td \<longrightarrow>
        cat0 (bs ! k) (snd (td ! (j + k))) \<noteq> Inl RuntimeError) \<Longrightarrow>
   test_loop T lf m td (enumerate j bs) r0 = Inl IndexError"
proof (induction bs arbitrary: j r0)
  case Nil
  then show ?case by simp
next
  case (Cons b bs)
  show ?case
  proof (cases "j < length td")
    case False
    then show ?thesis by (simp add: batch_pass_IndexError)
  next
    case True
    with Cons.prems have c: "cat0 b (snd (td ! j)) \<noteq> Inl RuntimeError" by auto
    from batch_pass_returns [OF Cons.prems(1) True c, of T lf] obtain v where
      v: "batch_pass T lf m td j b = Inr v" by blast
    have l: "length td < Suc j + length bs" using Cons.prems(2) by simp
    have r: "\<forall>k<length bs. Suc j + k < length td \<longrightarrow>
               cat0 (bs ! k) (snd (td ! (Suc j + k))) \<noteq> Inl RuntimeError"
      using Cons.prems(4) by fastforce
    have j': "Suc j \<le> length td" using True by simp
    from Cons.IH [OF Cons.prems(1) l j' r] v show ?thesis by simp
  qed
qed

lemma test_loop_not_IndexError:
  "built m \<Longrightarrow> j + length bs \<le> length td \<Longrightarrow>
   test_loop T lf m td (enumerate j bs) r0 \<noteq> Inl IndexError"
proof (induction bs arbitrary: j r0)
  case Nil
  then show ?case by simp
next
  case (Cons b bs)
  from Cons.prems have j: "j < length td" by simp
  from batch_pass_not_IndexError [OF Cons.prems(1) j]
  have n: "batch_pass T lf m td j b \<noteq> Inl IndexError" .
  have l: "Suc j + length bs \<le> length td" using Cons.prems(2) by simp
  from Cons.IH [OF Cons.prems(1) l] n show ?case
    by (auto split: sum.splits)
qed

lemma finish_epoch_Inr:
  "finish_epoch T tag w wi r ep = Inr (avg, w') \<Longrightarrow>
   cnt r \<noteq> 0 \<and> avg = loss_cum r / real (cnt r) \<and> (w' = None) = (w = None)"
  by (auto simp add: finish_epoch_def log_epoch_def py_truediv_def Let_def
        split: sum.splits if_splits option.splits)


lemma finish_epoch_not_IndexError:
  "finish_epoch T tag w wi r ep \<noteq> Inl IndexError"
  by (auto simp add: finish_epoch_def log_epoch_def py_truediv_def Let_def
        split: sum.splits if_splits option.splits)

lemma py_index_enumerate:
  "py_index (enumerate 0 xs) k = Inr t \<Longrightarrow> k < length xs \<and> snd t = xs ! k"
  by (auto simp add: py_index_def nth_enumerate_eq split: if_splits)

lemma snd_enumerate: "k < length xs \<Longrightarrow> snd (enumerate 0 xs ! k) = xs ! k"
  by (simp add: nth_enumerate_eq)

lemma train_epoch_Inr:
  assumes "train_epoch T m sl tg lf ob ep ps w wi = Inr (avg, st)"
  shows "\<exists>m' o' r w'. st = (m', o', w') \<and>
           train_loop T lf ps sl (enumerate_loader tg) (enumerate_loader sl)
             (update_weights (set_training T True) m, ob, running0) = Inr (m', o', r)
           \<and> finish_epoch T ''train'' w wi r ep = Inr (avg, w')"
  using assms
  by (auto simp add: train_epoch_def Let_def split: sum.splits prod.splits)

lemma test_epoch_Inr:
  assumes "test_epoch T m sl tg lf ep w wi = Inr (avg, st)"
  shows "\<exists>r w'. st = (update_weights (set_training T False) m, w') \<and>
           test_loop T lf (update_weights (set_training T False) m) (enumerate_loader tg)
             (enumerate_loader sl) running0 = Inr r
           \<and> finish_epoch T ''test'' w wi r ep = Inr (avg, w')"
  using assms
  by (auto simp add: test_epoch_def Let_def split: sum.splits prod.splits)

lemma train_loop_iterations0:
  "train_loop T lf ps sl td (enumerate 0 bs) (m0, o0, running0) = Inr (m, ob, r) \<Longrightarrow>
   \<exists>vs. length vs = length bs
      \<and> (\<forall>k<length bs. \<exists>mk ok rk.
            train_loop T lf ps sl td (take k (enumerate 0 bs)) (m0, o0, running0) = Inr (mk, ok, rk)
            \<and> batch_pass T lf mk td k (bs ! k) = Inr (vs ! k))
      \<and> loss_cum r = sum_list (map (\<lambda>v. val (v_loss v)) vs)
      \<and> loss_rec_cum r = sum_list (map (\<lambda>v. val (v_loss_rec v)) vs)
      \<and> loss_dom_cum r = sum_list (map (\<lambda>v. val (v_loss_dom v)) vs)
      \<and> cnt r = length bs
      \<and> (bs \<noteq> [] \<longrightarrow> last_vars r = Some (last vs))"
  using train_loop_iterations [of T lf ps sl td bs m0 o0 running0 m ob r]
  by (simp add: running0_def)

lemma test_loop_iterations0:
  "test_loop T lf m td (enumerate 0 bs) running0 = Inr r \<Longrightarrow>
   \<exists>vs. length vs = length bs
      \<and> (\<forall>k<length bs. batch_pass T lf m td k (bs ! k) = Inr (vs ! k))
      \<and> loss_cum r = sum_list (map (\<lambda>v. val (v_loss v)) vs)
      \<and> loss_rec_cum r = sum_list (map (\<lambda>v. val (v_loss_rec v)) vs)
      \<and> loss_dom_cum r = sum_list (map (\<lambda>v. val (v_loss_dom v)) vs)
      \<and> cnt r = length bs
      \<and> (bs \<noteq> [] \<longrightarrow> last_vars r = Some (last vs))"
  using test_loop_iterations [of T lf m td bs running0 r]
  by (simp add: running0_def)

lemma train_epoch_iterations:
  assumes "train_epoch T m sl tg lf ob ep ps w wi = Inr (avg, st)"
  shows "\<exists>vs. length vs = length (batches sl) \<and> batches sl \<noteq> []
      \<and> (\<forall>k<length (batches sl). \<exists>mk ok rk.
            train_state_at T m sl tg lf ob ps k = Inr (mk, ok, rk)
            \<and> lambda_rec mk = lambda_rec m
            \<and> batch_pass T lf mk (enumerate_loader tg) k (batches sl ! k) = Inr (vs ! k))
      \<and> avg = sum_list (map (\<lambda>v. val (v_loss v)) vs) / real (length (batches sl))"
proof -
  from train_epoch_Inr [OF assms] obtain m' o' r w' where
    lp: "train_loop T lf ps sl (enumerate_loader tg) (enumerate 0 (batches sl))
             (update_weights (set_training T True) m, ob, running0) = Inr (m', o', r)"
    and fin: "finish_epoch T ''train'' w wi r ep = Inr (avg, w')"
    by (auto simp add: enumerate_loader_def)
  from train_loop_iterations0 [OF lp] obtain vs where
    len: "length vs = length (batches sl)"
    and it: "\<forall>k<length (batches sl). \<exists>mk ok rk.
            train_loop T lf ps sl (enumerate_loader tg) (take k (enumerate 0 (batches sl)))
              (update_weights (set_training T True) m, ob, running0) = Inr (mk, ok, rk)
            \<and> batch_pass T lf mk (enumerate_loader tg) k (batches sl ! k) = Inr (vs ! k)"
    and sums: "loss_cum r = sum_list (map (\<lambda>v. val (v_loss v)) vs)"
    and cnt: "cnt r = length (batches sl)"
    by blast
  from finish_epoch_Inr [OF fin] have c: "cnt r \<noteq> 0" and a: "avg = loss_cum r / real (cnt r)"
    by simp_all
  from c cnt have ne: "batches sl \<noteq> []" by simp
  from a sums cnt have avg: "avg = sum_list (map (\<lambda>v. val (v_loss v)) vs) / real (length (batches sl))"
    by simp
  have "\<exists>mk ok rk. train_state_at T m sl tg lf ob ps k = Inr (mk, ok, rk)
            \<and> lambda_rec mk = lambda_rec m
            \<and> batch_pass T lf mk (enumerate_loader tg) k (batches sl ! k) = Inr (vs ! k)"
    if k: "k < length (batches sl)" for k
  proof -
    from it k obtain mk ok rk where
      s: "train_loop T lf ps sl (enumerate_loader tg) (take k (enumerate 0 (batches sl)))
              (update_weights (set_training T True) m, ob, running0) = Inr (mk, ok, rk)"
      and b: "batch_pass T lf mk (enumerate_loader tg) k (batches sl ! k) = Inr (vs ! k)"
      by blast
    from train_loop_preserves [OF s] have "lambda_rec mk = lambda_rec m"
      by (simp add: lambda_rec_update)
    with s b show ?thesis
      by (simp add: train_state_at_def enumerate_loader_def)
  qed
  with len ne avg show ?thesis by blast
qed

lemma test_epoch_iterations:
  assumes "test_epoch T m sl tg lf ep w wi = Inr (avg, st)"
  shows "\<exists>vs. length vs = length (batches sl) \<and> batches sl \<noteq> []
      \<and> (\<forall>k<length (batches sl).
            batch_pass T lf (update_weights (set_training T False) m) (enumerate_loader tg) k
              (batches sl ! k) = Inr (vs ! k))
      \<and> avg = sum_list (map (\<lambda>v. val (v_loss v)) vs) / real (length (batches sl))"
proof -
  from test_epoch_Inr [OF assms] obtain r w' where
    lp: "test_loop T lf (update_weights (set_training T False) m) (enumerate_loader tg)
             (enumerate 0 (batches sl)) running0 = Inr r"
    and fin: "finish_epoch T ''test'' w wi r ep = Inr (avg, w')"
    by (auto simp add: enumerate_loader_def)
  from test_loop_iterations0 [OF lp] obtain vs where
    len: "length vs = length (batches sl)"
    and it: "\<forall>k<length (batches sl).
            batch_pass T lf (update_weights (set_training T False) m) (enumerate_loader tg) k
              (batches sl ! k) = Inr (vs ! k)"
    and sums: "loss_cum r = sum_list (map (\<lambda>v. val (v_loss v)) vs)"
    and cnt: "cnt r = length (batches sl)"
    by blast
  from finish_epoch_Inr [OF fin] have c: "cnt r \<noteq> 0" and a: "avg = loss_cum r / real (cnt r)"
    by simp_all
  from c cnt have ne: "batches sl \<noteq> []" by simp
  from a sums cnt have avg: "avg = sum_list (map (\<lambda>v. val (v_loss v)) vs) / real (length (batches sl))"
    by simp
  with len ne it show ?thesis by blast
qed

lemma update_layer_unit: "update_layer f (l :: unit layer) = l"
  by (cases l) (simp add: update_layer_def)

lemma update_features_unit: "update_features f (fs :: mod_name \<rightharpoonup> unit layer) = fs"
proof (rule ext)
  fix name
  show "update_features f fs name = fs name"
    by (cases "fs name") (simp_all add: update_features_def update_layer_unit)
qed

lemma update_weights_unit: "update_weights f (m :: unit UNetAE) = m"
  by (simp add: update_weights_def update_encoder_def update_decoder_def update_features_unit
        update_layer_unit)

lemma ex_forward: "UNetAE_forward ex_run ex_model (Tensor [n] xs) = Inr (Tensor [length xs] xs, Tensor [length xs] xs)"
  by (simp add: ex_eval)

lemma ex_lambda: "lambda_rec ex_model = 0"
  by (simp add: ex_model_def UNetAE_init_def py_floordiv_def py_pow2_def Let_def)

lemma ex_batch:
  "batch_pass ex_torch ex_loss_fn ex_model [(0, Tensor [1] [7])] 0 (Tensor [1] [5]) =
     Inr \<lparr> v_x = Tensor [2] [5, 7], v_dom = Tensor [2] [0, 1], v_y_pred = Tensor [2] [5, 7],
           v_dom_pred = Tensor [2] [5, 7], v_loss_rec = Scalar 12 1, v_loss_dom = Scalar 2 1,
           v_loss = Scalar 12 1 \<rparr>"
  by (simp add: batch_pass_def py_index_def cat0_def size0_def zeros_def ones_def ex_torch_def
        ex_forward ex_loss_fn_def s_add_def s_mul_def Let_def ex_lambda)

lemma ex_train:
  "train_epoch ex_torch ex_model ex_src ex_tar ex_loss_fn () 0 1 None False
     = Inr (12, ex_model, (), None)"
  by (simp add: train_epoch_def ex_src_def ex_tar_def enumerate_loader_def ex_batch
        update_weights_unit finish_epoch_def log_epoch_def py_truediv_def py_mod_def
        running0_def accumulate_def Let_def del: One_nat_def)

lemma batch_pass_vars:
  assumes "batch_pass T lf m (enumerate_loader tg) k b = Inr v"
  shows "k < length (batches tg) \<and> cat0 b (batches tg ! k) = Inr (v_x v)
     \<and> (\<exists>ns nt r. shape b = ns # r \<and> shape (batches tg ! k) = nt # r
           \<and> v_x v = Tensor ((ns + nt) # r) (data b @ data (batches tg ! k))
           \<and> v_dom v = Tensor [ns + nt] (replicate ns 0 @ replicate nt 1))
     \<and> UNetAE_forward (run T) m (v_x v) = Inr (v_y_pred v, v_dom_pred v)
     \<and> v_loss_rec v = lf m (v_y_pred v) (v_x v)
     \<and> v_loss_dom v = CrossEntropyLoss T m (v_dom_pred v) (v_dom v)
     \<and> v_loss v = s_add (v_loss_rec v) (s_mul (lambda_rec m) (v_loss_dom v))"
proof -
  from batch_pass_Inr [OF assms] obtain t ns nt where
    ix: "py_index (enumerate 0 (batches tg)) k = Inr t"
    and cat: "cat0 b (snd t) = Inr (v_x v)"
    and sz: "size0 b = Inr ns" "size0 (snd t) = Inr nt"
    and lab: "cat0 (zeros ns) (ones nt) = Inr (v_dom v)"
    and rest: "UNetAE_forward (run T) m (v_x v) = Inr (v_y_pred v, v_dom_pred v)"
      "v_loss_rec v = lf m (v_y_pred v) (v_x v)"
      "v_loss_dom v = CrossEntropyLoss T m (v_dom_pred v) (v_dom v)"
      "v_loss v = s_add (v_loss_rec v) (s_mul (lambda_rec m) (v_loss_dom v))"
    unfolding enumerate_loader_def by blast
  from py_index_enumerate [OF ix] have k: "k < length (batches tg)" and t: "snd t = batches tg ! k"
    by simp_all
  from cat0_Inr [OF cat] sz obtain r where
    "shape b = ns # r" "shape (snd t) = nt # r"
    "v_x v = Tensor ((ns + nt) # r) (data b @ data (snd t))"
    by auto
  with lab have "\<exists>ns nt r. shape b = ns # r \<and> shape (batches tg ! k) = nt # r
           \<and> v_x v = Tensor ((ns + nt) # r) (data b @ data (batches tg ! k))
           \<and> v_dom v = Tensor [ns + nt] (replicate ns 0 @ replicate nt 1)"
    unfolding t by (simp add: cat0_labels)
  with k cat rest show ?thesis unfolding t by blast
qed



lemma ex_test:
  "test_epoch ex_torch ex_model ex_src ex_tar ex_loss_fn 0 None False = Inr (12, ex_model, None)"
  by (simp add: test_epoch_def ex_src_def ex_tar_def enumerate_loader_def ex_batch
        update_weights_unit finish_epoch_def log_epoch_def py_truediv_def
        running0_def accumulate_def Let_def del: One_nat_def)

lemma ex_built: "built ex_model"
  using built_init [OF ex_model_init] .

section \<open>What an iteration computes\<close>

text \<open>
  C4. The model is trained as an autoencoder. Whenever \<open>train_epoch\<close> or \<open>test_epoch\<close>
  returns, every iteration \<open>k\<close> of its loop has concatenated the source batch and the
  target batch of index \<open>k\<close> into \<open>x\<close>, run the model (in the state the epoch has
  brought it to) on \<open>x\<close>, and computed the reconstruction loss as \<open>loss_fn\<close> of the
  model's output \<open>y_pred\<close> and \<open>x\<close> itself. The same holds of any single iteration
  that gets as far as its losses, whatever becomes of the epoch.
\<close>

theorem reconstruction_loss_against_input:
  "(train_epoch T m sl tg lf ob ep ps w wi = Inr (avg, st) \<longrightarrow>
      (\<forall>k<length (batches sl). \<exists>mk ok rk v.
          train_state_at T m sl tg lf ob ps k = Inr (mk, ok, rk)
          \<and> batch_pass T lf mk (enumerate_loader tg) k (batches sl ! k) = Inr v
          \<and> cat0 (batches sl ! k) (batches tg ! k) = Inr (v_x v)
          \<and> UNetAE_forward (run T) mk (v_x v) = Inr (v_y_pred v, v_dom_pred v)
          \<and> v_loss_rec v = lf mk (v_y_pred v) (v_x v))) \<and>
   (test_epoch T m sl tg lf ep w' wi' = Inr (avg', st') \<longrightarrow>
      (\<forall>k<length (batches sl). \<exists>v.
          batch_pass T lf (update_weights (set_training T False) m) (enumerate_loader tg) k
            (batches sl ! k) = Inr v
          \<and> cat0 (batches sl ! k) (batches tg ! k) = Inr (v_x v)
          \<and> UNetAE_forward (run T) (update_weights (set_training T False) m) (v_x v)
               = Inr (v_y_pred v, v_dom_pred v)
          \<and> v_loss_rec v
               = lf (update_weights (set_training T False) m) (v_y_pred v) (v_x v))) \<and>
   (batch_pass T lf mj (enumerate_loader tg) j b = Inr u \<longrightarrow>
      cat0 b (batches tg ! j) = Inr (v_x u)
      \<and> UNetAE_forward (run T) mj (v_x u) = Inr (v_y_pred u, v_dom_pred u)
      \<and> v_loss_rec u = lf mj (v_y_pred u) (v_x u))"
proof (intro conjI impI allI)
  assume b: "batch_pass T lf mj (enumerate_loader tg) j b = Inr u"
  from batch_pass_vars [OF b]
  show "cat0 b (batches tg ! j) = Inr (v_x u)"
    and "UNetAE_forward (run T) mj (v_x u) = Inr (v_y_pred u, v_dom_pred u)"
    and "v_loss_rec u = lf mj (v_y_pred u) (v_x u)"
    by simp_all
next
  fix k
  assume tr: "train_epoch T m sl tg lf ob ep ps w wi = Inr (avg, st)" and k: "k < length (batches sl)"
  from train_epoch_iterations [OF tr] k obtain vs mk ok rk where
    s: "train_state_at T m sl tg lf ob ps k = Inr (mk, ok, rk)"
    and b: "batch_pass T lf mk (enumerate_loader tg) k (batches sl ! k) = Inr (vs ! k)"
    by blast
  from batch_pass_vars [OF b] s b
  show "\<exists>mk ok rk v.
          train_state_at T m sl tg lf ob ps k = Inr (mk, ok, rk)
          \<and> batch_pass T lf mk (enumerate_loader tg) k (batches sl ! k) = Inr v
          \<and> cat0 (batches sl ! k) (batches tg ! k) = Inr (v_x v)
          \<and> UNetAE_forward (run T) mk (v_x v) = Inr (v_y_pred v, v_dom_pred v)
          \<and> v_loss_rec v = lf mk (v_y_pred v) (v_x v)"
    by blast
next
  fix k
  assume te: "test_epoch T m sl tg lf ep w' wi' = Inr (avg', st')" and k: "k < length (batches sl)"
  from test_epoch_iterations [OF te] k obtain vs where
    b: "batch_pass T lf (update_weights (set_training T False) m) (enumerate_loader tg) k
          (batches sl ! k) = Inr (vs ! k)"
    by blast
  from batch_pass_vars [OF b] b
  show "\<exists>v. batch_pass T lf (update_weights (set_training T False) m) (enumerate_loader tg) k
            (batches sl ! k) = Inr v
          \<and> cat0 (batches sl ! k) (batches tg ! k) = Inr (v_x v)
          \<and> UNetAE_forward (run T) (update_weights (set_training T False) m) (v_x v)
               = Inr (v_y_pred v, v_dom_pred v)
          \<and> v_loss_rec v
               = lf (update_weights (set_training T False) m) (v_y_pred v) (v_x v)"
    by blast
qed

theorem reconstruction_loss_against_input_witness:
  "train_epoch ex_torch ex_model ex_src ex_tar ex_loss_fn () 0 1 None False
     = Inr (12, ex_model, (), None) \<and>
   test_epoch ex_torch ex_model ex_src ex_tar ex_loss_fn 0 None False
     = Inr (12, ex_model, None) \<and>
   (\<exists>v. batch_pass ex_torch ex_loss_fn ex_model (enumerate_loader ex_tar) 0 (Tensor [1] [5]) = Inr v
       \<and> cat0 (Tensor [1] [5]) (Tensor [1] [7]) = Inr (v_x v)
       \<and> v_loss_rec v = ex_loss_fn ex_model (v_y_pred v) (v_x v))"
  using reconstruction_loss_against_input
          [of ex_torch ex_model ex_src ex_tar ex_loss_fn "()" 0 1 None False 12
              "(ex_model, (), None)" None False 12 "(ex_model, None)"
              ex_model 0 "Tensor [1] [5]"
              "projr (batch_pass ex_torch ex_loss_fn ex_model [(0, Tensor [1] [7])] 0
                        (Tensor [1] [5]))"]
        ex_train ex_test ex_batch
  by (auto simp add: ex_src_def ex_tar_def train_state_at_def enumerate_loader_def
        update_weights_unit)


text \<open>
  C6. Whenever \<open>train_epoch\<close> returns, every iteration \<open>k\<close> of its loop has built the
  label vector as \<open>ns\<close> zeros followed by \<open>nt\<close> ones, where \<open>ns\<close> and \<open>nt\<close> are the
  batch sizes of the source and the target batch, in the order in which the input
  batch holds the source rows and then the target rows; the domain loss is the
  cross-entropy of the domain prediction against these labels, and the total loss is the
  reconstruction loss plus \<open>lambda_rec\<close> times the domain loss. The same holds of any
  single iteration that gets as far as its losses, whatever becomes of the epoch.
\<close>

theorem domain_labels_and_weighted_loss:
  "(train_epoch T m sl tg lf ob ep ps w wi = Inr (avg, st) \<longrightarrow>
      (\<forall>k<length (batches sl). \<exists>mk ok rk v ns nt r.
          train_state_at T m sl tg lf ob ps k = Inr (mk, ok, rk)
          \<and> batch_pass T lf mk (enumerate_loader tg) k (batches sl ! k) = Inr v
          \<and> shape (batches sl ! k) = ns # r \<and> shape (batches tg ! k) = nt # r
          \<and> v_x v = Tensor ((ns + nt) # r) (data (batches sl ! k) @ data (batches tg ! k))
          \<and> v_dom v = Tensor [ns + nt] (replicate ns 0 @ replicate nt 1)
          \<and> UNetAE_forward (run T) mk (v_x v) = Inr (v_y_pred v, v_dom_pred v)
          \<and> v_loss_dom v = CrossEntropyLoss T mk (v_dom_pred v) (v_dom v)
          \<and> v_loss v = s_add (v_loss_rec v) (s_mul (lambda_rec m) (v_loss_dom v)))) \<and>
   (batch_pass T lf mj (enumerate_loader tg) j b = Inr u \<longrightarrow>
      (\<exists>ns nt r. shape b = ns # r \<and> shape (batches tg ! j) = nt # r
          \<and> v_x u = Tensor ((ns + nt) # r) (data b @ data (batches tg ! j))
          \<and> v_dom u = Tensor [ns + nt] (replicate ns 0 @ replicate nt 1))
      \<and> v_loss_dom u = CrossEntropyLoss T mj (v_dom_pred u) (v_dom u)
      \<and> v_loss u = s_add (v_loss_rec u) (s_mul (lambda_rec mj) (v_loss_dom u)))"
proof (intro conjI impI allI)
  assume b: "batch_pass T lf mj (enumerate_loader tg) j b = Inr u"
  from batch_pass_vars [OF b]
  show "\<exists>ns nt r. shape b = ns # r \<and> shape (batches tg ! j) = nt # r
          \<and> v_x u = Tensor ((ns + nt) # r) (data b @ data (batches tg ! j))
          \<and> v_dom u = Tensor [ns + nt] (replicate ns 0 @ replicate nt 1)"
    and "v_loss_dom u = CrossEntropyLoss T mj (v_dom_pred u) (v_dom u)"
    and "v_loss u = s_add (v_loss_rec u) (s_mul (lambda_rec mj) (v_loss_dom u))"
    by simp_all
next
  fix k
  assume tr: "train_epoch T m sl tg lf ob ep ps w wi = Inr (avg, st)" and k: "k < length (batches sl)"
  from train_epoch_iterations [OF tr] k obtain vs mk ok rk where
    s: "train_state_at T m sl tg lf ob ps k = Inr (mk, ok, rk)"
    and l: "lambda_rec mk = lambda_rec m"
    and b: "batch_pass T lf mk (enumerate_loader tg) k (batches sl ! k) = Inr (vs ! k)"
    by blast
  from batch_pass_vars [OF b] s b l
  show "\<exists>mk ok rk v ns nt r.
          train_state_at T m sl tg lf ob ps k = Inr (mk, ok, rk)
          \<and> batch_pass T lf mk (enumerate_loader tg) k (batches sl ! k) = Inr v
          \<and> shape (batches sl ! k) = ns # r \<and> shape (batches tg ! k) = nt # r
          \<and> v_x v = Tensor ((ns + nt) # r) (data (batches sl ! k) @ data (batches tg ! k))
          \<and> v_dom v = Tensor [ns + nt] (replicate ns 0 @ replicate nt 1)
          \<and> UNetAE_forward (run T) mk (v_x v) = Inr (v_y_pred v, v_dom_pred v)
          \<and> v_loss_dom v = CrossEntropyLoss T mk (v_dom_pred v) (v_dom v)
          \<and> v_loss v = s_add (v_loss_rec v) (s_mul (lambda_rec m) (v_loss_dom v))"
    by (metis (no_types, lifting))
qed

theorem domain_labels_and_weighted_loss_witness:
  "train_epoch ex_torch ex_model ex_src ex_tar ex_loss_fn () 0 1 None False
     = Inr (12, ex_model, (), None) \<and>
   (\<exists>v. batch_pass ex_torch ex_loss_fn ex_model (enumerate_loader ex_tar) 0 (Tensor [1] [5]) = Inr v
       \<and> v_x v = Tensor [2] [5, 7] \<and> v_dom v = Tensor [2] [0, 1])"
  using domain_labels_and_weighted_loss
          [of ex_torch ex_model ex_src ex_tar ex_loss_fn "()" 0 1 None False 12
              "(ex_model, (), None)" ex_model 0 "Tensor [1] [5]"
              "projr (batch_pass ex_torch ex_loss_fn ex_model [(0, Tensor [1] [7])] 0
                        (Tensor [1] [5]))"]
        ex_train ex_batch
  by (auto simp add: ex_src_def ex_tar_def train_state_at_def enumerate_loader_def
        update_weights_unit numeral_2_eq_2)


section \<open>The value an epoch returns\<close>








section \<open>Indexing the target batches\<close>

lemma epoch_IndexError_iff:
  assumes "built m" and "ps \<noteq> 0" and "batch_size sl = Some bz" and "bz \<noteq> 0"
    and "\<forall>k<length (batches sl). k < length (batches tg) \<longrightarrow>
           cat0 (batches sl ! k) (batches tg ! k) \<noteq> Inl RuntimeError"
  shows "(train_epoch T m sl tg lf ob ep ps w wi = Inl IndexError)
           = (\<not> length (batches sl) \<le> length (batches tg)) \<and>
         (test_epoch T m sl tg lf ep w wi = Inl IndexError)
           = (\<not> length (batches sl) \<le> length (batches tg)) \<and>
         (\<exists>k<length (batches sl). py_index (enumerate_loader tg) k = Inl IndexError)
           = (\<not> length (batches sl) \<le> length (batches tg))"
proof (intro conjI)
  let ?td = "enumerate 0 (batches tg)"
  let ?mt = "update_weights (set_training T True) m"
  let ?me = "update_weights (set_training T False) m"
  have bt: "built ?mt" and be: "built ?me" using assms(1) by (simp_all add: built_update)
  have c: "\<forall>k<length (batches sl). 0 + k < length ?td \<longrightarrow>
             cat0 (batches sl ! k) (snd (?td ! (0 + k))) \<noteq> Inl RuntimeError"
    using assms(5) by (simp add: nth_enumerate_eq)
  show "(train_epoch T m sl tg lf ob ep ps w wi = Inl IndexError)
           = (\<not> length (batches sl) \<le> length (batches tg))"
  proof (cases "length (batches sl) \<le> length (batches tg)")
    case True
    then have l: "0 + length (batches sl) \<le> length ?td" by simp
    from train_loop_not_IndexError [OF bt l, of T lf ps sl ob running0]
         finish_epoch_not_IndexError [of T "''train''" w wi _ ep]
    have "train_epoch T m sl tg lf ob ep ps w wi \<noteq> Inl IndexError"
      by (auto simp add: train_epoch_def enumerate_loader_def Let_def split: sum.splits prod.splits)
    with True show ?thesis by simp
  next
    case False
    then have l: "length ?td < 0 + length (batches sl)" by simp
    from train_loop_IndexError [OF assms(2,3,4) bt l _ c, of T lf ob running0]
    have "train_epoch T m sl tg lf ob ep ps w wi = Inl IndexError"
      by (simp add: train_epoch_def enumerate_loader_def Let_def)
    with False show ?thesis by simp
  qed
  show "(test_epoch T m sl tg lf ep w wi = Inl IndexError)
           = (\<not> length (batches sl) \<le> length (batches tg))"
  proof (cases "length (batches sl) \<le> length (batches tg)")
    case True
    then have l: "0 + length (batches sl) \<le> length ?td" by simp
    from test_loop_not_IndexError [OF be l, of T lf running0]
         finish_epoch_not_IndexError [of T "''test''" w wi _ ep]
    have "test_epoch T m sl tg lf ep w wi \<noteq> Inl IndexError"
      by (auto simp add: test_epoch_def enumerate_loader_def Let_def split: sum.splits prod.splits)
    with True show ?thesis by simp
  next
    case False
    then have l: "length ?td < 0 + length (batches sl)" by simp
    from test_loop_IndexError [OF be l _ c, of T lf running0]
    have "test_epoch T m sl tg lf ep w wi = Inl IndexError"
      by (simp add: test_epoch_def enumerate_loader_def Let_def)
    with False show ?thesis by simp
  qed
  show "(\<exists>k<length (batches sl). py_index (enumerate_loader tg) k = Inl IndexError)
           = (\<not> length (batches sl) \<le> length (batches tg))"
    by (auto simp add: py_index_def enumerate_loader_def not_le
          intro: exI [of _ "length (batches tg)"])
qed



lemma epoch_not_IndexError:
  assumes "built m" "length (batches sl) \<le> length (batches tg)"
  shows "train_epoch T m sl tg lf ob ep ps w wi \<noteq> Inl IndexError \<and>
         test_epoch T m sl tg lf ep w wi \<noteq> Inl IndexError"
proof
  let ?td = "enumerate 0 (batches tg)"
  let ?mt = "update_weights (set_training T True) m"
  let ?me = "update_weights (set_training T False) m"
  have bt: "built ?mt" and be: "built ?me" using assms(1) by (simp_all add: built_update)
  from assms(2) have l: "0 + length (batches sl) \<le> length ?td" by simp
  from train_loop_not_IndexError [OF bt l, of T lf ps sl ob running0]
       finish_epoch_not_IndexError [of T "''train''" w wi _ ep]
  show "train_epoch T m sl tg lf ob ep ps w wi \<noteq> Inl IndexError"
    by (auto simp add: train_epoch_def enumerate_loader_def Let_def split: sum.splits prod.splits)
  from test_loop_not_IndexError [OF be l, of T lf running0]
       finish_epoch_not_IndexError [of T "''test''" w wi _ ep]
  show "test_epoch T m sl tg lf ep w wi \<noteq> Inl IndexError"
    by (auto simp add: test_epoch_def enumerate_loader_def Let_def split: sum.splits prod.splits)
qed

lemma paired_index_iff:
  "(\<forall>k<length (batches sl). \<exists>t. py_index (enumerate_loader tg) k = Inr t)
     = (length (batches sl) \<le> length (batches tg))"
proof
  assume a: "\<forall>k<length (batches sl). \<exists>t. py_index (enumerate_loader tg) k = Inr t"
  show "length (batches sl) \<le> length (batches tg)"
  proof (rule ccontr)
    assume "\<not> length (batches sl) \<le> length (batches tg)"
    then have "length (batches tg) < length (batches sl)" by simp
    with a obtain t where "py_index (enumerate_loader tg) (length (batches tg)) = Inr t" by blast
    then show False by (simp add: py_index_def enumerate_loader_def)
  qed
next
  assume "length (batches sl) \<le> length (batches tg)"
  then show "\<forall>k<length (batches sl). \<exists>t. py_index (enumerate_loader tg) k = Inr t"
    by (simp add: py_index_def enumerate_loader_def)
qed


text \<open>
  C10. Both epochs read the target batch as \<open>tar_data[i]\<close> with \<open>i\<close> the index of the
  source batch. For a model as \<open>UNetAE.__init__\<close> builds it: when the target loader yields
  at least as many batches as the source loader, neither epoch raises \<^verbatim>\<open>IndexError\<close>;
  that precondition holds if and only if every source-batch index has a paired target
  batch; and on inputs on which nothing else raises before (batches fit to be
  concatenated, printing possible) each epoch is free of \<^verbatim>\<open>IndexError\<close> if and only if
  the precondition holds.
\<close>

theorem target_batch_index_in_range:
  assumes "built m"
  shows "(length (batches sl) \<le> length (batches tg) \<longrightarrow>
            train_epoch T m sl tg lf ob ep ps w wi \<noteq> Inl IndexError
            \<and> test_epoch T m sl tg lf ep w wi \<noteq> Inl IndexError) \<and>
         ((\<forall>k<length (batches sl). \<exists>t. py_index (enumerate_loader tg) k = Inr t)
            = (length (batches sl) \<le> length (batches tg))) \<and>
         (ps \<noteq> 0 \<and> batch_size sl = Some bz \<and> bz \<noteq> 0 \<and>
          (\<forall>k<length (batches sl). k < length (batches tg) \<longrightarrow>
              cat0 (batches sl ! k) (batches tg ! k) \<noteq> Inl RuntimeError) \<longrightarrow>
            (train_epoch T m sl tg lf ob ep ps w wi \<noteq> Inl IndexError)
              = (length (batches sl) \<le> length (batches tg))
            \<and> (test_epoch T m sl tg lf ep w wi \<noteq> Inl IndexError)
              = (length (batches sl) \<le> length (batches tg)))"
proof (intro conjI impI)
  assume "length (batches sl) \<le> length (batches tg)"
  from epoch_not_IndexError [OF assms this, of T lf ob ep ps w wi]
  show "train_epoch T m sl tg lf ob ep ps w wi \<noteq> Inl IndexError"
    and "test_epoch T m sl tg lf ep w wi \<noteq> Inl IndexError"
    by simp_all
next
  show "(\<forall>k<length (batches sl). \<exists>t. py_index (enumerate_loader tg) k = Inr t)
            = (length (batches sl) \<le> length (batches tg))"
    by (rule paired_index_iff)
next
  assume h: "ps \<noteq> 0 \<and> batch_size sl = Some bz \<and> bz \<noteq> 0 \<and>
          (\<forall>k<length (batches sl). k < length (batches tg) \<longrightarrow>
              cat0 (batches sl ! k) (batches tg ! k) \<noteq> Inl RuntimeError)"
  then have h': "ps \<noteq> 0" "batch_size sl = Some bz" "bz \<noteq> 0"
    "\<forall>k<length (batches sl). k < length (batches tg) \<longrightarrow>
              cat0 (batches sl ! k) (batches tg ! k) \<noteq> Inl RuntimeError"
    by simp_all
  from epoch_IndexError_iff [OF assms h', of T lf ob ep w wi]
  show "(train_epoch T m sl tg lf ob ep ps w wi \<noteq> Inl IndexError)
              = (length (batches sl) \<le> length (batches tg))"
    and "(test_epoch T m sl tg lf ep w wi \<noteq> Inl IndexError)
              = (length (batches sl) \<le> length (batches tg))"
    by simp_all
qed


theorem target_batch_index_in_range_witness:
  "built ex_model \<and> batch_size ex_src = Some 1 \<and>
   \<not> length (batches ex_src) \<le> length (batches ex_none) \<and>
   length (batches ex_src) \<le> length (batches ex_tar) \<and>
   train_epoch ex_torch ex_model ex_src ex_none ex_loss_fn () 0 1 None False = Inl IndexError \<and>
   test_epoch ex_torch ex_model ex_src ex_none ex_loss_fn 0 None False = Inl IndexError \<and>
   train_epoch ex_torch ex_model ex_src ex_tar ex_loss_fn () 0 1 None False \<noteq> Inl IndexError \<and>
   test_epoch ex_torch ex_model ex_src ex_tar ex_loss_fn 0 None False \<noteq> Inl IndexError"
proof -
  have h: "(1::int) \<noteq> 0" "batch_size ex_src = Some 1" "(1::nat) \<noteq> 0"
    "\<forall>k<length (batches ex_src). k < length (batches ex_none) \<longrightarrow>
           cat0 (batches ex_src ! k) (batches ex_none ! k) \<noteq> Inl RuntimeError"
    by (simp_all add: ex_src_def ex_none_def)
  have n: "\<not> length (batches ex_src) \<le> length (batches ex_none)"
    "length (batches ex_src) \<le> length (batches ex_tar)"
    by (simp_all add: ex_src_def ex_none_def ex_tar_def)
  from target_batch_index_in_range
         [OF ex_built, of ex_src ex_none ex_torch ex_loss_fn "()" 0 1 None False 1]
       target_batch_index_in_range
         [OF ex_built, of ex_src ex_tar ex_torch ex_loss_fn "()" 0 1 None False 1]
       n h ex_built
  show ?thesis by simp
qed


section \<open>The training run: lemmas\<close>












lemma ex_epochs: "map int [0..<2] = [0, 1]"
  by (simp add: numeral_2_eq_2)

lemma ex_train_log:
  "train_epoch ex_torch ex_model ex_src ex_tar ex_loss_fn () ep 1 (Some w) wi
     = Inr (12, ex_model, (),
            snd (projr (finish_epoch ex_torch ''train'' (Some w) wi
                   (accumulate running0 (projr (batch_pass ex_torch ex_loss_fn ex_model
                       [(0, Tensor [1] [7])] 0 (Tensor [1] [5])))) ep)))"
  by (simp add: train_epoch_def ex_src_def ex_tar_def enumerate_loader_def ex_batch
        update_weights_unit finish_epoch_def log_epoch_def py_truediv_def py_mod_def
        running0_def accumulate_def Let_def del: One_nat_def)


lemmas ex_net_eval = train_net_def ex_args_def ex_epochs net_epoch_def net_test_def
  train_epoch_def test_epoch_def ex_src_def ex_tar_def ex_none_def enumerate_loader_def ex_batch
  batch_pass_IndexError update_weights_unit finish_epoch_def log_epoch_def py_truediv_def
  py_mod_def py_index_def os_path_join_def running0_def accumulate_def Let_def
  ex_torch_def [THEN arg_cong, of get_lr]



text \<open>
  With the default \<open>log_dir = None\<close> there is no writer, and the first epoch stops at
  \<^verbatim>\<open>writer.add_scalar\<close> after the scheduler's step.
\<close>

lemma train_net_without_log_dir:
  "train_net ex_torch ex_model (ex_args\<lparr>log_dir := None\<rparr>)
     = ([Train_epoch 0, Scheduler_step 0], Inl AttributeError)"
  by (simp add: ex_net_eval del: One_nat_def)


section \<open>The training run: what it does\<close>





end
